theory Spec2Isabelle
  imports
    Complex_Main
    "HOL-Library.Word"
    "HOL-Library.Sublist"
    "HOL-Library.AList"
    "HOL-Library.Option_ord"
    "HOL-Library.List_Lexorder"
begin

section \<open>JavaScript values\<close>

text \<open>
  A JavaScript string is a sequence of 16-bit code units. String literals of the source are
  written \<open>ustr ''...''\<close>.
\<close>

type_synonym jsstring = "16 word list"

definition ustr :: "string \<Rightarrow> jsstring" where
  "ustr s = map of_char s"

text \<open>
  The exceptions that can arise inside the service: a rejected promise of the remote client
  (with its message), a \<open>TypeError\<close> from a property read on \<open>undefined\<close>, and the
  \<open>SyntaxError\<close> of \<open>JSON.parse\<close>.
\<close>

datatype exn = RemoteError jsstring | TypeError | SyntaxError

text \<open>
  The values a field of a store record can hold. The remote store's columns are text (even the
  boolean flag is persisted as a string), so reading a field yields a string, \<open>null\<close>, or
  \<open>undefined\<close> when the key is absent.
\<close>

datatype jsval = JUndefined | JNull | JStr jsstring

fun truthy :: "jsval \<Rightarrow> bool" where
  "truthy (JStr s) = (s \<noteq> [])"
| "truthy JUndefined = False"
| "truthy JNull = False"

text \<open>\<open>a || b\<close>\<close>

definition js_or :: "jsval \<Rightarrow> jsval \<Rightarrow> jsval" where
  "js_or a b = (if truthy a then a else b)"

fun ToString :: "jsval \<Rightarrow> jsstring" where
  "ToString (JStr s) = s"
| "ToString JUndefined = ustr ''undefined''"
| "ToString JNull = ustr ''null''"

text \<open>\<open>String.prototype.includes\<close>, also the substring test of the store's \<open>contains\<close>.\<close>

fun js_includes :: "jsstring \<Rightarrow> jsstring \<Rightarrow> bool" where
  "js_includes needle [] = (needle = [])"
| "js_includes needle (c # cs) = (prefix needle (c # cs) \<or> js_includes needle cs)"

definition is_digit :: "16 word \<Rightarrow> bool" where
  "is_digit c = (0x30 \<le> c \<and> c \<le> 0x39)"

definition digit_value :: "16 word \<Rightarrow> nat" where
  "digit_value c = unat c - 48"

text \<open>The value of a sequence of digits in base \<open>b\<close>, most significant digit first.\<close>

definition digits_value :: "nat \<Rightarrow> nat list \<Rightarrow> nat" where
  "digits_value b ds = foldl (\<lambda>acc d. acc * b + d) 0 ds"

definition hexval :: "16 word \<Rightarrow> nat option" where
  "hexval c =
     (if 0x30 \<le> c \<and> c \<le> 0x39 then Some (unat c - 48)
      else if 0x61 \<le> c \<and> c \<le> 0x66 then Some (unat c - 87)
      else if 0x41 \<le> c \<and> c \<le> 0x46 then Some (unat c - 55)
      else None)"

section \<open>JSON\<close>

text \<open>
  The value of a JSON text. A number carries the mathematical value of its literal (the rounding
  to a double is not applied); an object carries its members in source order.
\<close>

datatype json =
    JsonNull
  | JsonBool bool
  | JsonNumber rat
  | JsonString jsstring
  | JsonArray "json list"
  | JsonObject "(jsstring \<times> json) list"

subsection \<open>\<open>JSON.stringify\<close> of an array of strings\<close>

definition hexdigit :: "nat \<Rightarrow> 16 word" where
  "hexdigit k = (if k < 10 then 0x30 + of_nat k else 0x61 + of_nat (k - 10))"

text \<open>\<open>UnicodeEscape\<close>: \<open>\<bsol>u\<close> and four lowercase hexadecimal digits.\<close>

definition UnicodeEscape :: "16 word \<Rightarrow> jsstring" where
  "UnicodeEscape c =
     (let n = unat c in
      [0x5C, 0x75, hexdigit (n div 4096), hexdigit (n div 256 mod 16),
       hexdigit (n div 16 mod 16), hexdigit (n mod 16)])"

definition is_leading_surrogate :: "16 word \<Rightarrow> bool" where
  "is_leading_surrogate c = (0xD800 \<le> c \<and> c \<le> 0xDBFF)"

definition is_trailing_surrogate :: "16 word \<Rightarrow> bool" where
  "is_trailing_surrogate c = (0xDC00 \<le> c \<and> c \<le> 0xDFFF)"

text \<open>One code point that is a single code unit, as \<open>QuoteJSONString\<close> writes it.\<close>

definition quote_unit :: "16 word \<Rightarrow> jsstring" where
  "quote_unit c =
     (if c = 0x08 then [0x5C, 0x62]
      else if c = 0x09 then [0x5C, 0x74]
      else if c = 0x0A then [0x5C, 0x6E]
      else if c = 0x0C then [0x5C, 0x66]
      else if c = 0x0D then [0x5C, 0x72]
      else if c = 0x22 then [0x5C, 0x22]
      else if c = 0x5C then [0x5C, 0x5C]
      else if c < 0x20 \<or> is_leading_surrogate c \<or> is_trailing_surrogate c then UnicodeEscape c
      else [c])"

text \<open>
  The code points of the string in turn: a leading surrogate followed by a trailing one is a
  single code point and is copied; any other code unit is a code point of its own.
\<close>

fun quote_units :: "jsstring \<Rightarrow> jsstring" where
  "quote_units [] = []"
| "quote_units [c] = quote_unit c"
| "quote_units (c # d # ds) =
     (if is_leading_surrogate c \<and> is_trailing_surrogate d then c # d # quote_units ds
      else quote_unit c @ quote_units (d # ds))"

definition QuoteJSONString :: "jsstring \<Rightarrow> jsstring" where
  "QuoteJSONString s = [0x22] @ quote_units s @ [0x22]"

fun join_comma :: "jsstring list \<Rightarrow> jsstring" where
  "join_comma [] = []"
| "join_comma [x] = x"
| "join_comma (x # y # ys) = x @ [0x2C] @ join_comma (y # ys)"

text \<open>\<open>JSON.stringify(xs)\<close> for \<open>xs : string[]\<close>, the only use the service makes of it.\<close>

definition JSON_stringify :: "jsstring list \<Rightarrow> jsstring" where
  "JSON_stringify xs = [0x5B] @ join_comma (map QuoteJSONString xs) @ [0x5D]"

subsection \<open>\<open>JSON.parse\<close>\<close>

datatype token =
    LBracket | RBracket | LBrace | RBrace | Comma | Colon
  | TString jsstring | TNumber rat | TTrue | TFalse | TNull

definition is_json_ws :: "16 word \<Rightarrow> bool" where
  "is_json_ws c = (c = 0x20 \<or> c = 0x09 \<or> c = 0x0A \<or> c = 0x0D)"

definition unescape :: "16 word \<Rightarrow> 16 word option" where
  "unescape e =
     (if e = 0x22 then Some 0x22
      else if e = 0x5C then Some 0x5C
      else if e = 0x2F then Some 0x2F
      else if e = 0x62 then Some 0x08
      else if e = 0x66 then Some 0x0C
      else if e = 0x6E then Some 0x0A
      else if e = 0x72 then Some 0x0D
      else if e = 0x74 then Some 0x09
      else None)"

definition hex4 :: "16 word \<Rightarrow> 16 word \<Rightarrow> 16 word \<Rightarrow> 16 word \<Rightarrow> 16 word option" where
  "hex4 h1 h2 h3 h4 =
     (case (hexval h1, hexval h2, hexval h3, hexval h4) of
        (Some a, Some b, Some c, Some d) \<Rightarrow> Some (of_nat (((a * 16 + b) * 16 + c) * 16 + d))
      | _ \<Rightarrow> None)"

definition cons_unit :: "16 word \<Rightarrow> (jsstring \<times> jsstring) option \<Rightarrow> (jsstring \<times> jsstring) option" where
  "cons_unit c r = (case r of None \<Rightarrow> None | Some (s, rest) \<Rightarrow> Some (c # s, rest))"

text \<open>
  The characters of a string literal after its opening quote: the decoded string and the text
  after the closing quote.
\<close>

fun lex_string :: "jsstring \<Rightarrow> (jsstring \<times> jsstring) option" where
  "lex_string [] = None"
| "lex_string (c # cs) =
     (if c = 0x22 then Some ([], cs)
      else if c = 0x5C then
        (case cs of
           [] \<Rightarrow> None
         | e # es \<Rightarrow>
             if e = 0x75 then
               (case es of
                  h1 # h2 # h3 # h4 # rest \<Rightarrow>
                    (case hex4 h1 h2 h3 h4 of
                       None \<Rightarrow> None
                     | Some u \<Rightarrow> cons_unit u (lex_string rest))
                | _ \<Rightarrow> None)
             else
               (case unescape e of
                  None \<Rightarrow> None
                | Some u \<Rightarrow> cons_unit u (lex_string es)))
      else if c < 0x20 then None
      else cons_unit c (lex_string cs))"

text \<open>An optional part of a number: absent, or present and well formed, or malformed.\<close>

definition lex_fraction :: "jsstring \<Rightarrow> (jsstring \<times> jsstring) option" where
  "lex_fraction s =
     (case s of
        c # cs \<Rightarrow>
          if c = 0x2E then
            (if takeWhile is_digit cs = [] then None
             else Some (takeWhile is_digit cs, dropWhile is_digit cs))
          else Some ([], s)
      | [] \<Rightarrow> Some ([], s))"

definition lex_exponent :: "jsstring \<Rightarrow> (int \<times> jsstring) option" where
  "lex_exponent s =
     (case s of
        c # cs \<Rightarrow>
          if c = 0x65 \<or> c = 0x45 then
            (let (neg, t) =
               (case cs of
                  g # gs \<Rightarrow> if g = 0x2D then (True, gs) else if g = 0x2B then (False, gs) else (False, cs)
                | [] \<Rightarrow> (False, cs));
                 ds = takeWhile is_digit t;
                 e = int (digits_value 10 (map digit_value ds))
             in if ds = [] then None
                else Some (if neg then - e else e, dropWhile is_digit t))
          else Some (0, s)
      | [] \<Rightarrow> Some (0, s))"

definition scale10 :: "rat \<Rightarrow> int \<Rightarrow> rat" where
  "scale10 q e = (if 0 \<le> e then q * 10 ^ nat e else q / 10 ^ nat (- e))"

definition decimal_value :: "jsstring \<Rightarrow> jsstring \<Rightarrow> int \<Rightarrow> rat" where
  "decimal_value ds fs e =
     scale10 (of_nat (digits_value 10 (map digit_value ds))
              + of_nat (digits_value 10 (map digit_value fs)) / 10 ^ length fs) e"

text \<open>
  A JSON number: an optional minus, an integer part without a leading zero, an optional
  fraction, an optional exponent.
\<close>

definition lex_number :: "jsstring \<Rightarrow> (rat \<times> jsstring) option" where
  "lex_number s =
     (let (neg, s1) = (case s of c # cs \<Rightarrow> if c = 0x2D then (True, cs) else (False, s) | [] \<Rightarrow> (False, s));
          ds = takeWhile is_digit s1
      in if ds = [] \<or> (1 < length ds \<and> hd ds = 0x30) then None
         else
           (case lex_fraction (dropWhile is_digit s1) of
              None \<Rightarrow> None
            | Some (fs, s2) \<Rightarrow>
                (case lex_exponent s2 of
                   None \<Rightarrow> None
                 | Some (e, s3) \<Rightarrow>
                     Some (if neg then - decimal_value ds fs e else decimal_value ds fs e, s3))))"

definition cons_token :: "token \<Rightarrow> token list option \<Rightarrow> token list option" where
  "cons_token t r = map_option (Cons t) r"

lemma lex_string_rest: "lex_string cs = Some (s, rest) \<Longrightarrow> length rest < Suc (length cs)"
proof (induction cs arbitrary: s rest rule: lex_string.induct)
  case 1
  then show ?case by simp
next
  case (2 c cs)
  then show ?case
    by (fastforce simp: cons_unit_def split: if_splits list.splits option.splits)
qed

lemma lex_fraction_rest: "lex_fraction s = Some (fs, rest) \<Longrightarrow> length rest \<le> length s"
  by (auto simp: lex_fraction_def length_dropWhile_le le_SucI split: list.splits if_splits)

lemma lex_exponent_rest: "lex_exponent s = Some (e, rest) \<Longrightarrow> length rest \<le> length s"
  by (auto simp: lex_exponent_def Let_def length_dropWhile_le le_SucI
      intro: order_trans [OF length_dropWhile_le]
      split: list.splits if_splits prod.splits)

lemma dropWhile_shorter: "takeWhile P xs \<noteq> [] \<Longrightarrow> length (dropWhile P xs) < length xs"
  by (induction xs) (auto simp: less_Suc_eq_le length_dropWhile_le split: if_splits)

lemma lex_number_rest: "lex_number s = Some (q, rest) \<Longrightarrow> length rest < length s"
proof -
  assume a: "lex_number s = Some (q, rest)"
  obtain neg s1 where ns: "(case s of c # cs \<Rightarrow> if c = 0x2D then (True, cs) else (False, s) | [] \<Rightarrow> (False, s)) = (neg, s1)"
    by (cases "(case s of c # cs \<Rightarrow> if c = 0x2D then (True, cs) else (False, s) | [] \<Rightarrow> (False, s))") auto
  then have s1: "length s1 \<le> length s"
    by (auto split: list.splits if_splits)
  from a ns have nz: "takeWhile is_digit s1 \<noteq> []"
    by (auto simp: lex_number_def Let_def split: if_splits)
  from a ns nz obtain fs s2 e where
    f: "lex_fraction (dropWhile is_digit s1) = Some (fs, s2)" and x: "lex_exponent s2 = Some (e, rest)"
    by (auto simp: lex_number_def Let_def split: if_splits option.splits)
  have "length rest \<le> length s2" using x by (rule lex_exponent_rest)
  also have "\<dots> \<le> length (dropWhile is_digit s1)" using f by (rule lex_fraction_rest)
  also have "\<dots> < length s1" using nz by (rule dropWhile_shorter)
  finally show ?thesis using s1 by simp
qed

text \<open>
  The tokens of a JSON text. White space separates tokens and is dropped; a character that
  starts no token is a syntax error (None).
\<close>

function lex :: "jsstring \<Rightarrow> token list option" where
  "lex [] = Some []"
| "lex (c # cs) =
     (if is_json_ws c then lex cs
      else if c = 0x5B then cons_token LBracket (lex cs)
      else if c = 0x5D then cons_token RBracket (lex cs)
      else if c = 0x7B then cons_token LBrace (lex cs)
      else if c = 0x7D then cons_token RBrace (lex cs)
      else if c = 0x2C then cons_token Comma (lex cs)
      else if c = 0x3A then cons_token Colon (lex cs)
      else if c = 0x22 then
        (case lex_string cs of
           None \<Rightarrow> None
         | Some (s, rest) \<Rightarrow> cons_token (TString s) (lex rest))
      else if c = 0x2D \<or> is_digit c then
        (case lex_number (c # cs) of
           None \<Rightarrow> None
         | Some (q, rest) \<Rightarrow> cons_token (TNumber q) (lex rest))
      else if prefix (ustr ''true'') (c # cs) then cons_token TTrue (lex (drop 3 cs))
      else if prefix (ustr ''false'') (c # cs) then cons_token TFalse (lex (drop 4 cs))
      else if prefix (ustr ''null'') (c # cs) then cons_token TNull (lex (drop 3 cs))
      else None)"
  by pat_completeness auto
termination
  by (relation "measure length") (auto dest: lex_string_rest lex_number_rest)

text \<open>
  The parser is a pushdown automaton over the tokens. A frame of the stack is an array or an
  object under construction; the object frame holds the key whose value is being read.
\<close>

datatype frame = ArrayFrame "json list" | ObjectFrame "(jsstring \<times> json) list" "jsstring option"

datatype expect =
    Value
  | ValueOrClose
  | KeyOrClose
  | Key
  | ColonAfterKey
  | CommaOrClose
  | End json

text \<open>A value is complete: it is the whole text, or it joins the container on top of the stack.\<close>

fun complete :: "json \<Rightarrow> frame list \<Rightarrow> (expect \<times> frame list) option" where
  "complete v [] = Some (End v, [])"
| "complete v (ArrayFrame es # st) = Some (CommaOrClose, ArrayFrame (es @ [v]) # st)"
| "complete v (ObjectFrame ms (Some k) # st) = Some (CommaOrClose, ObjectFrame (ms @ [(k, v)]) None # st)"
| "complete v (ObjectFrame ms None # st) = None"

fun start_value :: "token \<Rightarrow> frame list \<Rightarrow> (expect \<times> frame list) option" where
  "start_value (TString s) st = complete (JsonString s) st"
| "start_value (TNumber q) st = complete (JsonNumber q) st"
| "start_value TTrue st = complete (JsonBool True) st"
| "start_value TFalse st = complete (JsonBool False) st"
| "start_value TNull st = complete JsonNull st"
| "start_value LBracket st = Some (ValueOrClose, ArrayFrame [] # st)"
| "start_value LBrace st = Some (KeyOrClose, ObjectFrame [] None # st)"
| "start_value _ st = None"

fun start_key :: "token \<Rightarrow> frame list \<Rightarrow> (expect \<times> frame list) option" where
  "start_key (TString k) (ObjectFrame ms None # st) = Some (ColonAfterKey, ObjectFrame ms (Some k) # st)"
| "start_key _ _ = None"

fun close_array :: "frame list \<Rightarrow> (expect \<times> frame list) option" where
  "close_array (ArrayFrame es # st) = complete (JsonArray es) st"
| "close_array _ = None"

fun close_object :: "frame list \<Rightarrow> (expect \<times> frame list) option" where
  "close_object (ObjectFrame ms None # st) = complete (JsonObject ms) st"
| "close_object _ = None"

fun after_comma :: "frame list \<Rightarrow> (expect \<times> frame list) option" where
  "after_comma (ArrayFrame es # st) = Some (Value, ArrayFrame es # st)"
| "after_comma (ObjectFrame ms None # st) = Some (Key, ObjectFrame ms None # st)"
| "after_comma _ = None"

fun step :: "expect \<times> frame list \<Rightarrow> token \<Rightarrow> (expect \<times> frame list) option" where
  "step (Value, st) t = start_value t st"
| "step (ValueOrClose, st) t = (if t = RBracket then close_array st else start_value t st)"
| "step (KeyOrClose, st) t = (if t = RBrace then close_object st else start_key t st)"
| "step (Key, st) t = start_key t st"
| "step (ColonAfterKey, st) t = (if t = Colon then Some (Value, st) else None)"
| "step (CommaOrClose, st) t =
     (if t = Comma then after_comma st
      else if t = RBracket then close_array st
      else if t = RBrace then close_object st
      else None)"
| "step (End v, st) t = None"

fun run :: "expect \<times> frame list \<Rightarrow> token list \<Rightarrow> (expect \<times> frame list) option" where
  "run cfg [] = Some cfg"
| "run cfg (t # ts) = (case step cfg t of None \<Rightarrow> None | Some cfg' \<Rightarrow> run cfg' ts)"

text \<open>\<open>JSON.parse(text)\<close>: the value of the text, or a \<open>SyntaxError\<close>.\<close>

definition JSON_parse :: "jsval \<Rightarrow> exn + json" where
  "JSON_parse text =
     (case lex (ToString text) of
        None \<Rightarrow> Inl SyntaxError
      | Some ts \<Rightarrow>
          (case run (Value, []) ts of
             Some (End v, []) \<Rightarrow> Inr v
           | _ \<Rightarrow> Inl SyntaxError))"

section \<open>\<open>Number(value) > 0\<close>\<close>

definition is_StrWhiteSpaceChar :: "16 word \<Rightarrow> bool" where
  "is_StrWhiteSpaceChar c =
     (c = 0x09 \<or> c = 0x0A \<or> c = 0x0B \<or> c = 0x0C \<or> c = 0x0D \<or> c = 0x20 \<or> c = 0xA0
      \<or> c = 0x1680 \<or> (0x2000 \<le> c \<and> c \<le> 0x200A) \<or> c = 0x2028 \<or> c = 0x2029
      \<or> c = 0x202F \<or> c = 0x205F \<or> c = 0x3000 \<or> c = 0xFEFF)"

definition trim :: "jsstring \<Rightarrow> jsstring" where
  "trim s = rev (dropWhile is_StrWhiteSpaceChar (rev (dropWhile is_StrWhiteSpaceChar s)))"

text \<open>
  The result of a numeric coercion, as the mathematical value of the literal: the rounding to a
  double is left to the comparison below, and the sign of zero is not kept.
\<close>

datatype numeric = NaN | Infinity bool | Finite rat

definition digit_in_radix :: "nat \<Rightarrow> 16 word \<Rightarrow> bool" where
  "digit_in_radix b c = (case hexval c of None \<Rightarrow> False | Some v \<Rightarrow> v < b)"

definition radix_value :: "nat \<Rightarrow> jsstring \<Rightarrow> numeric" where
  "radix_value b ds =
     (if ds \<noteq> [] \<and> list_all (digit_in_radix b) ds
      then Finite (of_nat (digits_value b (map (\<lambda>c. case hexval c of None \<Rightarrow> 0 | Some v \<Rightarrow> v) ds)))
      else NaN)"

text \<open>\<open>StrUnsignedDecimalLiteral\<close>, with the sign already read.\<close>

definition unsigned_decimal :: "bool \<Rightarrow> jsstring \<Rightarrow> numeric" where
  "unsigned_decimal neg u =
     (if u = ustr ''Infinity'' then Infinity neg
      else
        (let ds = takeWhile is_digit u;
             r1 = dropWhile is_digit u;
             (fs, r2) = (case r1 of
                           c # cs \<Rightarrow> if c = 0x2E then (takeWhile is_digit cs, dropWhile is_digit cs)
                                     else ([], r1)
                         | [] \<Rightarrow> ([], r1))
         in if ds = [] \<and> fs = [] then NaN
            else
              (case lex_exponent r2 of
                 None \<Rightarrow> NaN
               | Some (e, r3) \<Rightarrow>
                   if r3 \<noteq> [] then NaN
                   else Finite (if neg then - decimal_value ds fs e else decimal_value ds fs e))))"

definition StringToNumber :: "jsstring \<Rightarrow> numeric" where
  "StringToNumber s =
     (case trim s of
        [] \<Rightarrow> Finite 0
      | [c] \<Rightarrow> unsigned_decimal False [c]
      | c # d # ds \<Rightarrow>
          if c = 0x30 \<and> (d = 0x78 \<or> d = 0x58) then radix_value 16 ds
          else if c = 0x30 \<and> (d = 0x6F \<or> d = 0x4F) then radix_value 8 ds
          else if c = 0x30 \<and> (d = 0x62 \<or> d = 0x42) then radix_value 2 ds
          else if c = 0x2B then unsigned_decimal False (d # ds)
          else if c = 0x2D then unsigned_decimal True (d # ds)
          else unsigned_decimal False (c # d # ds))"

fun ToNumber :: "jsval \<Rightarrow> numeric" where
  "ToNumber JUndefined = NaN"
| "ToNumber JNull = Finite 0"
| "ToNumber (JStr s) = StringToNumber s"

text \<open>
  \<open>x > 0\<close> for the double that the value rounds to. A positive value rounds to zero exactly
  when it is at most half the least positive double, \<open>2 ^ - 1074\<close> (ties go to the even
  significand, which is zero).
\<close>

fun gt_zero :: "numeric \<Rightarrow> bool" where
  "gt_zero NaN = False"
| "gt_zero (Infinity neg) = (\<not> neg)"
| "gt_zero (Finite q) = (1 / 2 ^ 1075 < q)"

section \<open>The remote document store\<close>

text \<open>
  A record of the store as the client hands it over: a JavaScript object, its properties in
  insertion order. Reading a property that the object lacks yields \<open>undefined\<close>.
\<close>

type_synonym row = "(string \<times> jsval) list"

definition get_prop :: "row \<Rightarrow> string \<Rightarrow> jsval" where
  "get_prop r k = (case map_of r k of None \<Rightarrow> JUndefined | Some v \<Rightarrow> v)"

text \<open>The \<open>where\<close> clauses the service builds, as it writes them.\<close>

datatype cond =
    Eq string jsval
  | Contains string jsstring
  | Not string jsval
  | AND "cond list"
  | OR "cond list"
  | NoCond

datatype direction = Asc | Desc

record query =
  q_where :: "cond option"
  q_orderBy :: "(string \<times> direction) option"
  q_limit :: "nat option"

text \<open>
  Modelled from the spec: the remote document store and its client (\<open>blink.db\<close>), which are
  not part of the repository. The contract is that of the spec's section on external
  interfaces: \<open>list({where, orderBy, limit})\<close> returns records, \<open>create(record)\<close>
  returns the record, \<open>update(id, partial)\<close> and \<open>delete(id)\<close> return nothing;
  \<open>where\<close> supports equality on a field, \<open>contains\<close> as a substring match, and
  \<open>AND\<close>/\<open>OR\<close> of clauses. A clause names a field by the key the record carries; the
  limit is a number of records; records order by the text of the field, an absent field first.
  Any call may fail (the promise rejects): \<open>faults\<close> is the outcome of the calls to come,
  \<open>Some e\<close> for the call that rejects with \<open>e\<close>; a call that rejects changes nothing.
\<close>

fun matches :: "row \<Rightarrow> cond \<Rightarrow> bool" where
  "matches r (Eq k v) = (get_prop r k = v)"
| "matches r (Contains k s) = (case get_prop r k of JStr t \<Rightarrow> js_includes s t | _ \<Rightarrow> False)"
| "matches r (Not k v) = (get_prop r k \<noteq> v)"
| "matches r (AND cs) = list_all (matches r) cs"
| "matches r (OR cs) = list_ex (matches r) cs"
| "matches r NoCond = True"

fun order_key :: "jsval \<Rightarrow> jsstring option" where
  "order_key (JStr s) = Some s"
| "order_key JUndefined = None"
| "order_key JNull = None"

definition db_select :: "row list \<Rightarrow> query \<Rightarrow> row list" where
  "db_select rows q =
     (let matched = (case q_where q of None \<Rightarrow> rows | Some c \<Rightarrow> filter (\<lambda>r. matches r c) rows);
          ordered = (case q_orderBy q of
                       None \<Rightarrow> matched
                     | Some (k, Asc) \<Rightarrow> sort_key (\<lambda>r. order_key (get_prop r k)) matched
                     | Some (k, Desc) \<Rightarrow> rev (sort_key (\<lambda>r. order_key (get_prop r k)) matched))
      in case q_limit q of None \<Rightarrow> ordered | Some n \<Rightarrow> take n ordered)"

record remote =
  article_rows :: "row list"
  category_rows :: "row list"
  faults :: "exn option list"

definition attempt :: "remote \<Rightarrow> exn option \<times> remote" where
  "attempt s = (case faults s of [] \<Rightarrow> (None, s) | e # es \<Rightarrow> (e, s\<lparr>faults := es\<rparr>))"

definition articles_list :: "query \<Rightarrow> remote \<Rightarrow> (exn + row list) \<times> remote" where
  "articles_list q s =
     (case attempt s of
        (Some e, s') \<Rightarrow> (Inl e, s')
      | (None, s') \<Rightarrow> (Inr (db_select (article_rows s') q), s'))"

definition categories_list :: "query \<Rightarrow> remote \<Rightarrow> (exn + row list) \<times> remote" where
  "categories_list q s =
     (case attempt s of
        (Some e, s') \<Rightarrow> (Inl e, s')
      | (None, s') \<Rightarrow> (Inr (db_select (category_rows s') q), s'))"

definition articles_create :: "row \<Rightarrow> remote \<Rightarrow> (exn + row) \<times> remote" where
  "articles_create r s =
     (case attempt s of
        (Some e, s') \<Rightarrow> (Inl e, s')
      | (None, s') \<Rightarrow> (Inr r, s'\<lparr>article_rows := article_rows s' @ [r]\<rparr>))"

text \<open>The record after a partial write: the fields of the patch replace or extend its own.\<close>

definition assign :: "row \<Rightarrow> row \<Rightarrow> row" where
  "assign r patch = fold (\<lambda>(k, v). AList.update k v) patch r"

definition articles_update :: "jsstring \<Rightarrow> row \<Rightarrow> remote \<Rightarrow> (exn + unit) \<times> remote" where
  "articles_update i patch s =
     (case attempt s of
        (Some e, s') \<Rightarrow> (Inl e, s')
      | (None, s') \<Rightarrow>
          (Inr (), s'\<lparr>article_rows := map (\<lambda>r. if get_prop r ''id'' = JStr i then assign r patch else r)
                                       (article_rows s')\<rparr>))"

definition articles_delete :: "jsstring \<Rightarrow> remote \<Rightarrow> (exn + unit) \<times> remote" where
  "articles_delete i s =
     (case attempt s of
        (Some e, s') \<Rightarrow> (Inl e, s')
      | (None, s') \<Rightarrow> (Inr (), s'\<lparr>article_rows := filter (\<lambda>r. get_prop r ''id'' \<noteq> JStr i) (article_rows s')\<rparr>))"

section \<open>The article service\<close>

record Article =
  art_id :: jsval
  title :: jsval
  content :: jsval
  excerpt :: jsval
  author :: jsval
  category :: jsval
  categoryName :: jsval
  categoryColor :: jsval
  featuredImage :: jsval
  publishedAt :: jsval
  readTime :: jsval
  isAggregated :: bool
  sourceName :: jsval
  sourceUrl :: jsval
  tags :: json
  userId :: jsval
  createdAt :: jsval
  updatedAt :: jsval

record Category =
  c_id :: jsval
  c_name :: jsval
  c_color :: jsval
  c_description :: jsval
  c_userId :: jsval
  c_createdAt :: jsval

record ArticleFilters =
  f_category :: "jsstring option"
  f_search :: "jsstring option"
  f_isAggregated :: "bool option"
  f_limit :: "nat option"
  f_offset :: "nat option"

text \<open>\<open>Partial<Article>\<close>: every field may be absent.\<close>

record PartialArticle =
  p_id :: "jsstring option"
  p_title :: "jsstring option"
  p_content :: "jsstring option"
  p_excerpt :: "jsstring option"
  p_author :: "jsstring option"
  p_category :: "jsstring option"
  p_categoryName :: "jsstring option"
  p_categoryColor :: "jsstring option"
  p_featuredImage :: "jsstring option"
  p_publishedAt :: "jsstring option"
  p_readTime :: "jsstring option"
  p_isAggregated :: "bool option"
  p_sourceName :: "jsstring option"
  p_sourceUrl :: "jsstring option"
  p_tags :: "jsstring list option"
  p_userId :: "jsstring option"
  p_createdAt :: "jsstring option"
  p_updatedAt :: "jsstring option"

text \<open>An optional string field as the value that reading it yields.\<close>

fun opt :: "jsstring option \<Rightarrow> jsval" where
  "opt None = JUndefined"
| "opt (Some s) = JStr s"

text \<open>
  What the service reads from its environment: \<open>Date.now()\<close>, the text of
  \<open>Math.random().toString(36)\<close>, and \<open>new Date().toISOString()\<close> at each place that
  reads the clock.
\<close>

record env =
  Date_now :: nat
  Math_random_36 :: jsstring
  iso_publishedAt :: jsstring
  iso_createdAt :: jsstring
  iso_updatedAt :: jsstring

text \<open>The decimal digits of a natural number, as a template literal writes it.\<close>

function decimal :: "nat \<Rightarrow> jsstring" where
  "decimal n = (if n < 10 then [0x30 + of_nat n] else decimal (n div 10) @ [0x30 + of_nat (n mod 10)])"
  by pat_completeness auto
termination
  by (relation "measure id") auto

declare decimal.simps [simp del]

text \<open>
  The receiver of a method call. \<open>this.transformArticle(x)\<close> calls the method on the
  service; \<open>xs.map(this.transformArticle)\<close> hands the method over as a plain function, and
  \<open>Array.prototype.map\<close>, given no \<open>thisArg\<close>, calls it with \<open>this\<close> undefined
  (a class body is strict code).
\<close>

datatype this_binding = ThisUndefined | ThisService

definition parseTags :: "jsval \<Rightarrow> json" where
  "parseTags tagsString =
     (case JSON_parse (js_or tagsString (JStr (ustr ''[]''))) of
        Inl e \<Rightarrow> JsonArray []
      | Inr v \<Rightarrow> v)"

text \<open>
  The object literal is evaluated field by field. The fields before \<open>tags\<close> read properties
  of the record and cannot throw; \<open>this.parseTags\<close> throws a \<open>TypeError\<close> when
  \<open>this\<close> is undefined.
\<close>

definition transformArticle :: "this_binding \<Rightarrow> row \<Rightarrow> exn + Article" where
  "transformArticle this dbArticle =
     (case this of
        ThisUndefined \<Rightarrow> Inl TypeError
      | ThisService \<Rightarrow>
          Inr \<lparr> art_id = get_prop dbArticle ''id'',
                title = get_prop dbArticle ''title'',
                content = get_prop dbArticle ''content'',
                excerpt = get_prop dbArticle ''excerpt'',
                author = get_prop dbArticle ''author'',
                category = get_prop dbArticle ''category'',
                categoryName = js_or (get_prop dbArticle ''categoryName'') (get_prop dbArticle ''category_name''),
                categoryColor = js_or (get_prop dbArticle ''categoryColor'') (get_prop dbArticle ''category_color''),
                featuredImage = js_or (get_prop dbArticle ''featuredImage'') (get_prop dbArticle ''featured_image''),
                publishedAt = js_or (get_prop dbArticle ''publishedAt'') (get_prop dbArticle ''published_at''),
                readTime = js_or (get_prop dbArticle ''readTime'') (get_prop dbArticle ''read_time''),
                isAggregated = gt_zero (ToNumber (js_or (get_prop dbArticle ''isAggregated'')
                                                        (get_prop dbArticle ''is_aggregated''))),
                sourceName = js_or (get_prop dbArticle ''sourceName'') (get_prop dbArticle ''source_name''),
                sourceUrl = js_or (get_prop dbArticle ''sourceUrl'') (get_prop dbArticle ''source_url''),
                tags = parseTags (get_prop dbArticle ''tags''),
                userId = js_or (get_prop dbArticle ''userId'') (get_prop dbArticle ''user_id''),
                createdAt = js_or (get_prop dbArticle ''createdAt'') (get_prop dbArticle ''created_at''),
                updatedAt = js_or (get_prop dbArticle ''updatedAt'') (get_prop dbArticle ''updated_at'') \<rparr>)"

text \<open>\<open>Array.prototype.map\<close> with a callback that may throw: the first throw ends it.\<close>

fun array_map :: "('a \<Rightarrow> exn + 'b) \<Rightarrow> 'a list \<Rightarrow> exn + 'b list" where
  "array_map f [] = Inr []"
| "array_map f (x # xs) =
     (case f x of
        Inl e \<Rightarrow> Inl e
      | Inr y \<Rightarrow> (case array_map f xs of Inl e \<Rightarrow> Inl e | Inr ys \<Rightarrow> Inr (y # ys)))"

text \<open>The flag as the store holds it: \<open>b ? "1" : "0"\<close>.\<close>

definition flag :: "bool \<Rightarrow> jsval" where
  "flag b = JStr (if b then ustr ''1'' else ustr ''0'')"

definition whereConditions :: "ArticleFilters \<Rightarrow> cond list" where
  "whereConditions filters =
     (case f_category filters of
        Some c \<Rightarrow> if c \<noteq> [] \<and> c \<noteq> ustr ''all'' then [Eq ''category'' (JStr c)] else []
      | None \<Rightarrow> [])
     @ (case f_search filters of
          Some s \<Rightarrow>
            if s \<noteq> [] then
              [OR [Contains ''title'' s, Contains ''excerpt'' s, Contains ''author'' s, Contains ''tags'' s]]
            else []
        | None \<Rightarrow> [])
     @ (case f_isAggregated filters of
          Some b \<Rightarrow> [Eq ''isAggregated'' (flag b)]
        | None \<Rightarrow> [])"

definition whereClause :: "ArticleFilters \<Rightarrow> cond" where
  "whereClause filters =
     (if 0 < length (whereConditions filters) then AND (whereConditions filters) else NoCond)"

definition getArticles_query :: "ArticleFilters \<Rightarrow> query" where
  "getArticles_query filters =
     \<lparr> q_where = Some (whereClause filters),
       q_orderBy = Some (''publishedAt'', Desc),
       q_limit = Some (case f_limit filters of None \<Rightarrow> 20 | Some n \<Rightarrow> n) \<rparr>"

definition getArticles :: "ArticleFilters \<Rightarrow> remote \<Rightarrow> Article list \<times> remote" where
  "getArticles filters s =
     (case articles_list (getArticles_query filters) s of
        (Inl error, s') \<Rightarrow> ([], s')
      | (Inr articles, s') \<Rightarrow>
          (case array_map (transformArticle ThisUndefined) articles of
             Inl error \<Rightarrow> ([], s')
           | Inr result \<Rightarrow> (result, s')))"

definition getArticleById :: "jsstring \<Rightarrow> remote \<Rightarrow> Article option \<times> remote" where
  "getArticleById i s =
     (case articles_list \<lparr> q_where = Some (Eq ''id'' (JStr i)), q_orderBy = None, q_limit = Some 1 \<rparr> s of
        (Inl error, s') \<Rightarrow> (None, s')
      | (Inr [], s') \<Rightarrow> (None, s')
      | (Inr (a # articles), s') \<Rightarrow>
          (case transformArticle ThisService a of
             Inl error \<Rightarrow> (None, s')
           | Inr result \<Rightarrow> (Some result, s')))"

definition getFeaturedArticle :: "remote \<Rightarrow> Article option \<times> remote" where
  "getFeaturedArticle s =
     (case articles_list \<lparr> q_where = None, q_orderBy = Some (''publishedAt'', Desc), q_limit = Some 1 \<rparr> s of
        (Inl error, s') \<Rightarrow> (None, s')
      | (Inr [], s') \<Rightarrow> (None, s')
      | (Inr (a # articles), s') \<Rightarrow>
          (case transformArticle ThisService a of
             Inl error \<Rightarrow> (None, s')
           | Inr result \<Rightarrow> (Some result, s')))"

text \<open>The limit is 3 when the caller gives none.\<close>

definition getTrendingArticles :: "nat option \<Rightarrow> remote \<Rightarrow> Article list \<times> remote" where
  "getTrendingArticles limit s =
     (case articles_list \<lparr> q_where = None, q_orderBy = Some (''publishedAt'', Desc),
                           q_limit = Some ((case limit of None \<Rightarrow> 3 | Some n \<Rightarrow> n) + 1) \<rparr> s of
        (Inl error, s') \<Rightarrow> ([], s')
      | (Inr articles, s') \<Rightarrow>
          (case array_map (transformArticle ThisUndefined) (drop 1 articles) of
             Inl error \<Rightarrow> ([], s')
           | Inr result \<Rightarrow> (result, s')))"

definition getRelatedArticles :: "jsstring \<Rightarrow> jsstring \<Rightarrow> nat option \<Rightarrow> remote \<Rightarrow> Article list \<times> remote" where
  "getRelatedArticles articleId cat limit s =
     (case articles_list \<lparr> q_where = Some (AND [Eq ''category'' (JStr cat), Not ''id'' (JStr articleId)]),
                           q_orderBy = Some (''publishedAt'', Desc),
                           q_limit = Some (case limit of None \<Rightarrow> 3 | Some n \<Rightarrow> n) \<rparr> s of
        (Inl error, s') \<Rightarrow> ([], s')
      | (Inr articles, s') \<Rightarrow>
          (case array_map (transformArticle ThisUndefined) articles of
             Inl error \<Rightarrow> ([], s')
           | Inr result \<Rightarrow> (result, s')))"

definition to_Category :: "row \<Rightarrow> Category" where
  "to_Category cat =
     \<lparr> c_id = get_prop cat ''id'',
       c_name = get_prop cat ''name'',
       c_color = get_prop cat ''color'',
       c_description = js_or (get_prop cat ''description'') (JStr (ustr [])),
       c_userId = js_or (get_prop cat ''userId'') (get_prop cat ''user_id''),
       c_createdAt = js_or (get_prop cat ''createdAt'') (get_prop cat ''created_at'') \<rparr>"

definition getCategories :: "remote \<Rightarrow> Category list \<times> remote" where
  "getCategories s =
     (case categories_list \<lparr> q_where = None, q_orderBy = Some (''name'', Asc), q_limit = None \<rparr> s of
        (Inl error, s') \<Rightarrow> ([], s')
      | (Inr cats, s') \<Rightarrow> (map to_Category cats, s'))"

text \<open>\<open>`article_${Date.now()}_${Math.random().toString(36).substr(2, 9)}`\<close>\<close>

definition new_id :: "env \<Rightarrow> jsstring" where
  "new_id e = ustr ''article_'' @ decimal (Date_now e) @ ustr ''_'' @ take 9 (drop 2 (Math_random_36 e))"

text \<open>\<open>iso.split('T')[0]\<close>\<close>

definition date_part :: "jsstring \<Rightarrow> jsstring" where
  "date_part t = takeWhile (\<lambda>c. c \<noteq> 0x54) t"

definition new_record :: "env \<Rightarrow> PartialArticle \<Rightarrow> row" where
  "new_record e articleData =
     [ (''id'', JStr (new_id e)),
       (''title'', js_or (opt (p_title articleData)) (JStr (ustr []))),
       (''content'', js_or (opt (p_content articleData)) (JStr (ustr []))),
       (''excerpt'', js_or (opt (p_excerpt articleData)) (JStr (ustr []))),
       (''author'', js_or (opt (p_author articleData)) (JStr (ustr []))),
       (''category'', js_or (opt (p_category articleData)) (JStr (ustr []))),
       (''categoryName'', js_or (opt (p_categoryName articleData)) (JStr (ustr []))),
       (''categoryColor'', js_or (opt (p_categoryColor articleData)) (JStr (ustr ''#2563eb''))),
       (''featuredImage'', js_or (opt (p_featuredImage articleData)) (JStr (ustr []))),
       (''publishedAt'', js_or (opt (p_publishedAt articleData)) (JStr (date_part (iso_publishedAt e)))),
       (''readTime'', js_or (opt (p_readTime articleData)) (JStr (ustr ''5 min read''))),
       (''isAggregated'', flag (p_isAggregated articleData = Some True)),
       (''sourceName'', js_or (opt (p_sourceName articleData)) JNull),
       (''sourceUrl'', js_or (opt (p_sourceUrl articleData)) JNull),
       (''tags'', JStr (JSON_stringify (case p_tags articleData of None \<Rightarrow> [] | Some ts \<Rightarrow> ts))),
       (''userId'', js_or (opt (p_userId articleData)) (JStr (ustr ''user''))),
       (''createdAt'', JStr (iso_createdAt e)),
       (''updatedAt'', JStr (iso_updatedAt e)) ]"

definition createArticle :: "env \<Rightarrow> PartialArticle \<Rightarrow> remote \<Rightarrow> Article option \<times> remote" where
  "createArticle e articleData s =
     (case articles_create (new_record e articleData) s of
        (Inl error, s') \<Rightarrow> (None, s')
      | (Inr article, s') \<Rightarrow>
          (case transformArticle ThisService article of
             Inl error \<Rightarrow> (None, s')
           | Inr result \<Rightarrow> (Some result, s')))"

text \<open>\<open>if (articleData.f) updateData.f = articleData.f\<close>\<close>

definition if_truthy :: "string \<Rightarrow> jsstring option \<Rightarrow> row" where
  "if_truthy k x = (if truthy (opt x) then [(k, opt x)] else [])"

text \<open>
  What a sparse update is to write for an optional string field: the string when it is there and
  is not empty, nothing otherwise. This states the contract; \<open>updateData\<close> below is the code.
\<close>

definition written :: "jsstring option \<Rightarrow> jsval option" where
  "written x = (case x of None \<Rightarrow> None | Some v \<Rightarrow> if v = [] then None else Some (JStr v))"

definition updateData :: "env \<Rightarrow> PartialArticle \<Rightarrow> row" where
  "updateData e articleData =
     [(''updatedAt'', JStr (iso_updatedAt e))]
     @ if_truthy ''title'' (p_title articleData)
     @ if_truthy ''content'' (p_content articleData)
     @ if_truthy ''excerpt'' (p_excerpt articleData)
     @ if_truthy ''author'' (p_author articleData)
     @ if_truthy ''category'' (p_category articleData)
     @ if_truthy ''categoryName'' (p_categoryName articleData)
     @ if_truthy ''categoryColor'' (p_categoryColor articleData)
     @ if_truthy ''featuredImage'' (p_featuredImage articleData)
     @ if_truthy ''publishedAt'' (p_publishedAt articleData)
     @ if_truthy ''readTime'' (p_readTime articleData)
     @ (case p_isAggregated articleData of None \<Rightarrow> [] | Some b \<Rightarrow> [(''isAggregated'', flag b)])
     @ if_truthy ''sourceName'' (p_sourceName articleData)
     @ if_truthy ''sourceUrl'' (p_sourceUrl articleData)
     @ (case p_tags articleData of None \<Rightarrow> [] | Some ts \<Rightarrow> [(''tags'', JStr (JSON_stringify ts))])"

definition updateArticle :: "env \<Rightarrow> jsstring \<Rightarrow> PartialArticle \<Rightarrow> remote \<Rightarrow> Article option \<times> remote" where
  "updateArticle e i articleData s =
     (case articles_update i (updateData e articleData) s of
        (Inl error, s') \<Rightarrow> (None, s')
      | (Inr u, s') \<Rightarrow> getArticleById i s')"

definition deleteArticle :: "jsstring \<Rightarrow> remote \<Rightarrow> bool \<times> remote" where
  "deleteArticle i s =
     (case articles_delete i s of
        (Inl error, s') \<Rightarrow> (False, s')
      | (Inr u, s') \<Rightarrow> (True, s'))"

section \<open>Sample data\<close>

text \<open>A stored article with all its fields, as \<open>createArticle\<close> writes them.\<close>

definition sample_article :: "string \<Rightarrow> string \<Rightarrow> string \<Rightarrow> bool \<Rightarrow> row" where
  "sample_article i cat day aggregated =
     [ (''id'', JStr (ustr i)),
       (''title'', JStr (ustr ''Title of '' @ ustr i)),
       (''content'', JStr (ustr ''<p>Body</p>'')),
       (''excerpt'', JStr (ustr ''Summary'')),
       (''author'', JStr (ustr ''Ada'')),
       (''category'', JStr (ustr cat)),
       (''categoryName'', JStr (ustr ''Category'')),
       (''categoryColor'', JStr (ustr ''#2563eb'')),
       (''featuredImage'', JStr (ustr [])),
       (''publishedAt'', JStr (ustr day)),
       (''readTime'', JStr (ustr ''5 min read'')),
       (''isAggregated'', flag aggregated),
       (''sourceName'', JNull),
       (''sourceUrl'', JNull),
       (''tags'', JStr (ustr ''[]'')),
       (''userId'', JStr (ustr ''user'')),
       (''createdAt'', JStr (ustr ''2024-01-01T00:00:00.000Z'')),
       (''updatedAt'', JStr (ustr ''2024-01-01T00:00:00.000Z'')) ]"

definition sample_store :: remote where
  "sample_store =
     \<lparr> article_rows =
         [ sample_article ''a1'' ''ai'' ''2024-03-01'' False,
           sample_article ''a2'' ''web'' ''2024-03-04'' True,
           sample_article ''a3'' ''ai'' ''2024-03-02'' True,
           sample_article ''a4'' ''ai'' ''2024-03-03'' False ],
       category_rows =
         [ [(''id'', JStr (ustr ''web'')), (''name'', JStr (ustr ''Web'')), (''color'', JStr (ustr ''#222'')),
            (''description'', JStr (ustr ''Web things'')), (''user_id'', JStr (ustr ''u1'')),
            (''created_at'', JStr (ustr ''2024-01-01''))],
           [(''id'', JStr (ustr ''ai'')), (''name'', JStr (ustr ''AI'')), (''color'', JStr (ustr ''#111'')),
            (''userId'', JStr (ustr ''u2'')), (''created_at'', JStr (ustr ''2024-01-02''))] ],
       faults = [] \<rparr>"

definition no_filters :: ArticleFilters where
  "no_filters = \<lparr> f_category = None, f_search = None, f_isAggregated = None, f_limit = None, f_offset = None \<rparr>"

definition nothing :: PartialArticle where
  "nothing =
     \<lparr> p_id = None, p_title = None, p_content = None, p_excerpt = None, p_author = None,
       p_category = None, p_categoryName = None, p_categoryColor = None, p_featuredImage = None,
       p_publishedAt = None, p_readTime = None, p_isAggregated = None, p_sourceName = None,
       p_sourceUrl = None, p_tags = None, p_userId = None, p_createdAt = None, p_updatedAt = None \<rparr>"

definition sample_env :: env where
  "sample_env =
     \<lparr> Date_now = 1712345678901,
       Math_random_36 = ustr ''0.k3j9x2m1qpz'',
       iso_publishedAt = ustr ''2024-04-05T19:34:38.901Z'',
       iso_createdAt = ustr ''2024-04-05T19:34:38.902Z'',
       iso_updatedAt = ustr ''2024-04-05T19:34:38.903Z'' \<rparr>"

section \<open>Properties\<close>

subsection \<open>The store's fault schedule\<close>

lemma attempt_fault: "faults s = Some e # fs \<Longrightarrow> attempt s = (Some e, s\<lparr>faults := fs\<rparr>)"
  by (simp add: attempt_def)

lemma attempt_ok: "faults s = None # fs \<Longrightarrow> attempt s = (None, s\<lparr>faults := fs\<rparr>)"
  by (simp add: attempt_def)

lemma attempt_idle: "faults s = [] \<Longrightarrow> attempt s = (None, s)"
  by (simp add: attempt_def)

subsection \<open>The sample data\<close>

lemma sample_article_props:
  "get_prop (sample_article i cat day ag) ''id'' = JStr (ustr i)"
  "get_prop (sample_article i cat day ag) ''category'' = JStr (ustr cat)"
  "get_prop (sample_article i cat day ag) ''publishedAt'' = JStr (ustr day)"
  "get_prop (sample_article i cat day ag) ''isAggregated'' = flag ag"
  by (simp_all add: sample_article_def get_prop_def)

lemma sample_store_idle: "attempt sample_store = (None, sample_store)"
  by (simp add: attempt_def sample_store_def)

subsection \<open>The unbound method in \<open>map\<close>\<close>

text \<open>
  \<open>articles.map(this.transformArticle)\<close> succeeds only on the empty array: on any record
  the callback throws, and the \<open>catch\<close> of the caller turns that into the empty result.
\<close>

lemma array_map_unbound:
  "array_map (transformArticle ThisUndefined) rows = (if rows = [] then Inr [] else Inl TypeError)"
  by (cases rows) (simp_all add: transformArticle_def)

lemma getArticles_empty: "fst (getArticles filters s) = []"
  by (simp add: getArticles_def articles_list_def array_map_unbound
      split: prod.splits option.splits sum.splits)

subsection \<open>Filters\<close>

text \<open>
  C10. A filter whose category is the empty string restricts nothing: \<open>getArticles\<close> builds
  the same \<open>where\<close> clause, and so returns the same result, as with the category absent or
  with the category \<open>"all"\<close>.
\<close>

theorem empty_category_is_no_restriction:
  "whereClause (filters\<lparr>f_category := Some []\<rparr>) = whereClause (filters\<lparr>f_category := None\<rparr>)
   \<and> whereClause (filters\<lparr>f_category := Some []\<rparr>) = whereClause (filters\<lparr>f_category := Some (ustr ''all'')\<rparr>)
   \<and> getArticles (filters\<lparr>f_category := Some []\<rparr>) s = getArticles (filters\<lparr>f_category := None\<rparr>) s
   \<and> getArticles (filters\<lparr>f_category := Some []\<rparr>) s = getArticles (filters\<lparr>f_category := Some (ustr ''all'')\<rparr>) s"
  by (simp add: getArticles_def getArticles_query_def whereClause_def whereConditions_def)

subsection \<open>Failures of the remote store\<close>

lemma getTrendingArticles_empty:
  "fst (getTrendingArticles n s) = []"
  by (simp add: getTrendingArticles_def articles_list_def array_map_unbound
      split: prod.splits option.splits sum.splits)

lemma getRelatedArticles_empty:
  "fst (getRelatedArticles a c n s) = []"
  by (simp add: getRelatedArticles_def articles_list_def array_map_unbound
      split: prod.splits option.splits sum.splits)

text \<open>
  C2. When the call to the remote client rejects, every operation of the service returns its
  safe default and the store is as it was: the four list operations return the empty sequence,
  the four single-article operations return null, \<open>deleteArticle\<close> returns false.
  \<open>updateArticle\<close> returns null as well when the write succeeds and the read after
  it rejects. No operation has an exceptional outcome: each is a total function into its
  result type.
\<close>

theorem remote_failure_defaults:
  assumes "faults s = Some e # fs"
  shows "getArticles filters s = ([], s\<lparr>faults := fs\<rparr>)
       \<and> getTrendingArticles n s = ([], s\<lparr>faults := fs\<rparr>)
       \<and> getRelatedArticles a c n s = ([], s\<lparr>faults := fs\<rparr>)
       \<and> getCategories s = ([], s\<lparr>faults := fs\<rparr>)
       \<and> getArticleById i s = (None, s\<lparr>faults := fs\<rparr>)
       \<and> getFeaturedArticle s = (None, s\<lparr>faults := fs\<rparr>)
       \<and> createArticle en d s = (None, s\<lparr>faults := fs\<rparr>)
       \<and> updateArticle en i d s = (None, s\<lparr>faults := fs\<rparr>)
       \<and> deleteArticle i s = (False, s\<lparr>faults := fs\<rparr>)
       \<and> fst (updateArticle en i d (s\<lparr>faults := None # Some e # fs\<rparr>)) = None"
  using attempt_fault [OF assms]
  by (simp add: getArticles_def getTrendingArticles_def getRelatedArticles_def getCategories_def
      getArticleById_def getFeaturedArticle_def createArticle_def updateArticle_def deleteArticle_def
      articles_list_def categories_list_def articles_create_def articles_update_def articles_delete_def
      attempt_def)

theorem remote_failure_defaults_witness:
  "faults (sample_store\<lparr>faults := [Some (RemoteError (ustr ''Network error''))]\<rparr>)
     = Some (RemoteError (ustr ''Network error'')) # []
   \<and> fst (getArticles no_filters (sample_store\<lparr>faults := [Some (RemoteError (ustr ''Network error''))]\<rparr>)) = []
   \<and> fst (getCategories (sample_store\<lparr>faults := [Some (RemoteError (ustr ''Network error''))]\<rparr>)) = []
   \<and> fst (getArticleById (ustr ''a1'') (sample_store\<lparr>faults := [Some (RemoteError (ustr ''Network error''))]\<rparr>)) = None
   \<and> fst (createArticle sample_env nothing (sample_store\<lparr>faults := [Some (RemoteError (ustr ''Network error''))]\<rparr>)) = None
   \<and> fst (deleteArticle (ustr ''a1'') (sample_store\<lparr>faults := [Some (RemoteError (ustr ''Network error''))]\<rparr>)) = False"
  using remote_failure_defaults
    [where s = "sample_store\<lparr>faults := [Some (RemoteError (ustr ''Network error''))]\<rparr>"
       and e = "RemoteError (ustr ''Network error'')" and fs = "[]" and filters = no_filters
       and i = "ustr ''a1''" and en = sample_env and d = nothing]
  by simp

subsection \<open>What a query selects\<close>

lemma db_select_limit: "q_limit q = Some n \<Longrightarrow> length (db_select rows q) \<le> n"
  by (simp add: db_select_def Let_def)

lemma db_select_set: "set (db_select rows q) \<subseteq> set (case q_where q of None \<Rightarrow> rows | Some c \<Rightarrow> filter (\<lambda>r. matches r c) rows)"
proof -
  have "set (take n xs) \<subseteq> set xs" for n and xs :: "row list"
    by (rule set_take_subset)
  then show ?thesis
    by (auto simp: db_select_def Let_def split: option.splits prod.splits direction.splits dest: in_set_takeD)
qed

lemma db_select_matches: "r \<in> set (db_select rows q) \<Longrightarrow> q_where q = Some c \<Longrightarrow> matches r c"
  using db_select_set [of rows q] by auto

lemma db_select_member: "r \<in> set (db_select rows q) \<Longrightarrow> r \<in> set rows"
  using db_select_set [of rows q] by (auto split: option.splits)

lemma whereClause_category:
  "matches r (whereClause filters) \<Longrightarrow> f_category filters = Some c \<Longrightarrow> c \<noteq> [] \<Longrightarrow> c \<noteq> ustr ''all''
   \<Longrightarrow> get_prop r ''category'' = JStr c"
  by (simp add: whereClause_def whereConditions_def split: if_splits)

lemma whereClause_flag:
  "matches r (whereClause filters) \<Longrightarrow> f_isAggregated filters = Some b
   \<Longrightarrow> get_prop r ''isAggregated'' = JStr (if b then ustr ''1'' else ustr ''0'')"
  by (simp add: whereClause_def whereConditions_def flag_def split: if_splits)

lemma whereClause_search:
  "matches r (whereClause filters) \<Longrightarrow> f_search filters = Some t \<Longrightarrow> t \<noteq> []
   \<Longrightarrow> matches r (Contains ''title'' t) \<or> matches r (Contains ''excerpt'' t)
       \<or> matches r (Contains ''author'' t) \<or> matches r (Contains ''tags'' t)"
  by (simp add: whereClause_def whereConditions_def split: if_splits)

lemma articles_list_rows:
  "articles_list q s = (Inr rows, s') \<Longrightarrow> rows = db_select (article_rows s) q"
  by (auto simp: articles_list_def attempt_def split: list.splits option.splits)

text \<open>
  C1. \<open>getArticles\<close> returns at most \<open>limit\<close> records (20 when no limit is given), its
  result does not depend on \<open>offset\<close>, and every record it returns has the requested
  category (when one other than \<open>"all"\<close> was supplied) and the requested flag. These
  hold of the result because \<open>getArticles\<close> returns no record at all
  (\<open>getArticles_empty\<close>); the theorem therefore also states what holds of the records that
  the store hands to \<open>getArticles\<close>, from which the result would be built: they are at
  most \<open>limit\<close>, each has the requested category when that is neither empty nor
  \<open>"all"\<close>, and each holds the flag \<open>"1"\<close> or \<open>"0"\<close> that encodes the requested
  boolean.
\<close>

theorem getArticles_respects_filters:
  assumes "articles_list (getArticles_query filters) s = (Inr rows, s')"
  shows "length (fst (getArticles filters s)) \<le> (case f_limit filters of None \<Rightarrow> 20 | Some n \<Rightarrow> n)
       \<and> getArticles (filters\<lparr>f_offset := off\<rparr>) s = getArticles filters s
       \<and> (\<forall>a \<in> set (fst (getArticles filters s)).
             (\<forall>c. f_category filters = Some c \<and> c \<noteq> ustr ''all'' \<longrightarrow> category a = JStr c)
           \<and> (\<forall>b. f_isAggregated filters = Some b \<longrightarrow> isAggregated a = b))
       \<and> length rows \<le> (case f_limit filters of None \<Rightarrow> 20 | Some n \<Rightarrow> n)
       \<and> (\<forall>r \<in> set rows.
             (\<forall>c. f_category filters = Some c \<and> c \<noteq> [] \<and> c \<noteq> ustr ''all'' \<longrightarrow> get_prop r ''category'' = JStr c)
           \<and> (\<forall>b. f_isAggregated filters = Some b \<longrightarrow>
                  get_prop r ''isAggregated'' = JStr (if b then ustr ''1'' else ustr ''0'')))"
proof -
  have rows: "rows = db_select (article_rows s) (getArticles_query filters)"
    using assms by (rule articles_list_rows)
  have limit: "length rows \<le> (case f_limit filters of None \<Rightarrow> 20 | Some n \<Rightarrow> n)"
    unfolding rows by (rule db_select_limit) (simp add: getArticles_query_def)
  have m: "matches r (whereClause filters)" if "r \<in> set rows" for r
    using that unfolding rows by (rule db_select_matches) (simp add: getArticles_query_def)
  have offset: "getArticles (filters\<lparr>f_offset := off\<rparr>) s = getArticles filters s"
    by (simp add: getArticles_def getArticles_query_def whereClause_def whereConditions_def)
  have cat: "get_prop r ''category'' = JStr c"
    if "r \<in> set rows" "f_category filters = Some c" "c \<noteq> []" "c \<noteq> ustr ''all''" for r c
    using m [OF that(1)] that(2-4) by (rule whereClause_category)
  have flg: "get_prop r ''isAggregated'' = JStr (if b then ustr ''1'' else ustr ''0'')"
    if "r \<in> set rows" "f_isAggregated filters = Some b" for r b
    using m [OF that(1)] that(2) by (rule whereClause_flag)
  show ?thesis
    using limit offset cat flg by (simp add: getArticles_empty)
qed

lemma sample_store_ai_originals:
  "db_select (article_rows sample_store)
     (getArticles_query (no_filters\<lparr>f_category := Some (ustr ''ai''), f_isAggregated := Some False\<rparr>)) =
   [ sample_article ''a4'' ''ai'' ''2024-03-03'' False,
     sample_article ''a1'' ''ai'' ''2024-03-01'' False ]"
  apply (simp add: sample_store_def getArticles_query_def no_filters_def whereClause_def
      whereConditions_def db_select_def sample_article_props flag_def)
  apply (simp add: ustr_def)
  done

lemma sample_store_sorted:
  "rev (sort_key (\<lambda>r. order_key (get_prop r ''publishedAt'')) (article_rows sample_store)) =
   [ sample_article ''a2'' ''web'' ''2024-03-04'' True,
     sample_article ''a4'' ''ai'' ''2024-03-03'' False,
     sample_article ''a3'' ''ai'' ''2024-03-02'' True,
     sample_article ''a1'' ''ai'' ''2024-03-01'' False ]"
  apply (simp add: sample_store_def sample_article_props)
  apply (simp add: ustr_def)
  done

theorem getArticles_respects_filters_witness:
  "articles_list (getArticles_query (no_filters\<lparr>f_category := Some (ustr ''ai''), f_isAggregated := Some False\<rparr>))
     sample_store
   = (Inr [sample_article ''a4'' ''ai'' ''2024-03-03'' False, sample_article ''a1'' ''ai'' ''2024-03-01'' False],
      sample_store)
   \<and> length [sample_article ''a4'' ''ai'' ''2024-03-03'' False, sample_article ''a1'' ''ai'' ''2024-03-01'' False] \<le> 20
   \<and> get_prop (sample_article ''a4'' ''ai'' ''2024-03-03'' False) ''category'' = JStr (ustr ''ai'')
   \<and> get_prop (sample_article ''a4'' ''ai'' ''2024-03-03'' False) ''isAggregated'' = JStr (ustr ''0'')
   \<and> get_prop (sample_article ''a1'' ''ai'' ''2024-03-01'' False) ''category'' = JStr (ustr ''ai'')
   \<and> get_prop (sample_article ''a1'' ''ai'' ''2024-03-01'' False) ''isAggregated'' = JStr (ustr ''0'')
   \<and> fst (getArticles (no_filters\<lparr>f_category := Some (ustr ''ai''), f_isAggregated := Some False\<rparr>) sample_store) = []"
proof -
  let ?f = "no_filters\<lparr>f_category := Some (ustr ''ai''), f_isAggregated := Some False\<rparr>"
  let ?rows = "[sample_article ''a4'' ''ai'' ''2024-03-03'' False, sample_article ''a1'' ''ai'' ''2024-03-01'' False]"
  have fetch: "articles_list (getArticles_query ?f) sample_store = (Inr ?rows, sample_store)"
    by (simp add: articles_list_def sample_store_idle sample_store_ai_originals)
  have ne: "ustr ''ai'' \<noteq> []" "ustr ''ai'' \<noteq> ustr ''all''"
    by (simp_all add: ustr_def)
  show ?thesis
    using getArticles_respects_filters [OF fetch, where off = None] fetch ne
    by (auto simp: no_filters_def getArticles_empty)
qed


subsection \<open>Lists of articles\<close>

text \<open>
  C5. With no filters, \<open>getArticles\<close> should return the most recent articles, newest
  first. On a store of four articles the store answers the query with the four, newest first,
  and \<open>getArticles\<close> returns none of them: the callback of \<open>map\<close> throws and the
  \<open>catch\<close> returns the empty sequence.
\<close>

theorem getArticles_no_filters_returns_nothing:
  "articles_list (getArticles_query no_filters) sample_store =
     (Inr [ sample_article ''a2'' ''web'' ''2024-03-04'' True,
            sample_article ''a4'' ''ai'' ''2024-03-03'' False,
            sample_article ''a3'' ''ai'' ''2024-03-02'' True,
            sample_article ''a1'' ''ai'' ''2024-03-01'' False ], sample_store)
   \<and> getArticles no_filters sample_store = ([], sample_store)"
proof -
  have q: "db_select (article_rows sample_store) (getArticles_query no_filters) =
           take 20 (rev (sort_key (\<lambda>r. order_key (get_prop r ''publishedAt'')) (article_rows sample_store)))"
    by (simp add: db_select_def getArticles_query_def no_filters_def whereClause_def whereConditions_def)
  have fetch: "articles_list (getArticles_query no_filters) sample_store =
     (Inr [ sample_article ''a2'' ''web'' ''2024-03-04'' True,
            sample_article ''a4'' ''ai'' ''2024-03-03'' False,
            sample_article ''a3'' ''ai'' ''2024-03-02'' True,
            sample_article ''a1'' ''ai'' ''2024-03-01'' False ], sample_store)"
    by (simp add: articles_list_def sample_store_idle q sample_store_sorted)
  show ?thesis
    using fetch by (simp add: getArticles_def array_map_unbound del: array_map.simps)
qed

text \<open>
  C8. \<open>getTrendingArticles(3)\<close> on a store of exactly four articles should return the
  three that follow the most recent one. The store answers with the four, newest first,
  dropping the first leaves three, and \<open>getTrendingArticles\<close> returns none of them, for
  the reason above; called on the service, \<open>transformArticle\<close> would have produced the
  three.
\<close>

theorem getTrendingArticles_returns_nothing:
  "articles_list \<lparr> q_where = None, q_orderBy = Some (''publishedAt'', Desc), q_limit = Some (3 + 1) \<rparr>
     sample_store =
     (Inr [ sample_article ''a2'' ''web'' ''2024-03-04'' True,
            sample_article ''a4'' ''ai'' ''2024-03-03'' False,
            sample_article ''a3'' ''ai'' ''2024-03-02'' True,
            sample_article ''a1'' ''ai'' ''2024-03-01'' False ], sample_store)
   \<and> getTrendingArticles (Some 3) sample_store = ([], sample_store)
   \<and> map_sum id (map art_id)
        (array_map (transformArticle ThisService)
           (drop 1 [ sample_article ''a2'' ''web'' ''2024-03-04'' True,
                     sample_article ''a4'' ''ai'' ''2024-03-03'' False,
                     sample_article ''a3'' ''ai'' ''2024-03-02'' True,
                     sample_article ''a1'' ''ai'' ''2024-03-01'' False ]))
       = Inr [JStr (ustr ''a4''), JStr (ustr ''a3''), JStr (ustr ''a1'')]"
proof -
  have q: "db_select (article_rows sample_store)
             \<lparr> q_where = None, q_orderBy = Some (''publishedAt'', Desc), q_limit = Some 4 \<rparr> =
           take 4 (rev (sort_key (\<lambda>r. order_key (get_prop r ''publishedAt'')) (article_rows sample_store)))"
    by (simp add: db_select_def)
  have fetch: "articles_list \<lparr> q_where = None, q_orderBy = Some (''publishedAt'', Desc), q_limit = Some (3 + 1) \<rparr>
     sample_store =
     (Inr [ sample_article ''a2'' ''web'' ''2024-03-04'' True,
            sample_article ''a4'' ''ai'' ''2024-03-03'' False,
            sample_article ''a3'' ''ai'' ''2024-03-02'' True,
            sample_article ''a1'' ''ai'' ''2024-03-01'' False ], sample_store)"
    by (simp add: articles_list_def sample_store_idle q sample_store_sorted)
  have bound: "map_sum id (map art_id)
        (array_map (transformArticle ThisService)
           (drop 1 [ sample_article ''a2'' ''web'' ''2024-03-04'' True,
                     sample_article ''a4'' ''ai'' ''2024-03-03'' False,
                     sample_article ''a3'' ''ai'' ''2024-03-02'' True,
                     sample_article ''a1'' ''ai'' ''2024-03-01'' False ]))
       = Inr [JStr (ustr ''a4''), JStr (ustr ''a3''), JStr (ustr ''a1'')]"
    by (simp add: transformArticle_def sample_article_props)
  show ?thesis
    using fetch bound by (simp add: getTrendingArticles_def transformArticle_def)
qed

text \<open>
  The part of C8 that the code keeps: on a store with fewer than two articles the result is
  empty. (It is empty on every store.)
\<close>

lemma getTrendingArticles_small_store:
  "length (article_rows s) < 2 \<Longrightarrow> fst (getTrendingArticles n s) = []"
  by (rule getTrendingArticles_empty)


subsection \<open>Categories\<close>

lemma attempt_rows:
  "category_rows (snd (attempt s)) = category_rows s" "article_rows (snd (attempt s)) = article_rows s"
  by (simp_all add: attempt_def split: list.splits)

lemma getCategories_ok:
  "fst (attempt s) = None \<Longrightarrow>
   fst (getCategories s) = map to_Category (sort_key (\<lambda>r. order_key (get_prop r ''name'')) (category_rows s))"
  using attempt_rows(1) [of s]
  by (cases "attempt s") (simp add: getCategories_def categories_list_def db_select_def)

text \<open>
  C9. When the call succeeds, \<open>getCategories\<close> returns every category of the store, ordered
  by name ascending, each normalized field by field: \<open>id\<close>, \<open>name\<close> and \<open>color\<close>
  are copied, \<open>description\<close> is the empty string when the record has none, and
  \<open>userId\<close> and \<open>createdAt\<close>, the fields whose snake-case key differs, take the value
  under \<open>user_id\<close> and \<open>created_at\<close> when the record lacks the camel-case key, each on
  its own.
\<close>

theorem getCategories_ordered_normalized:
  assumes "fst (attempt s) = None"
  shows "fst (getCategories s) = map to_Category (sort_key (\<lambda>r. order_key (get_prop r ''name'')) (category_rows s))
       \<and> sorted (map (\<lambda>c. order_key (c_name c)) (fst (getCategories s)))
       \<and> length (fst (getCategories s)) = length (category_rows s)
       \<and> set (fst (getCategories s)) = to_Category ` set (category_rows s)
       \<and> c_id (to_Category cat) = get_prop cat ''id''
       \<and> c_name (to_Category cat) = get_prop cat ''name''
       \<and> c_color (to_Category cat) = get_prop cat ''color''
       \<and> c_description (to_Category cat) = js_or (get_prop cat ''description'') (JStr [])
       \<and> (get_prop cat ''userId'' = JUndefined \<longrightarrow> c_userId (to_Category cat) = get_prop cat ''user_id'')
       \<and> (get_prop cat ''createdAt'' = JUndefined \<longrightarrow> c_createdAt (to_Category cat) = get_prop cat ''created_at'')
       \<and> (truthy (get_prop cat ''userId'') \<longrightarrow> c_userId (to_Category cat) = get_prop cat ''userId'')
       \<and> (truthy (get_prop cat ''createdAt'') \<longrightarrow> c_createdAt (to_Category cat) = get_prop cat ''createdAt'')"
proof -
  let ?key = "\<lambda>r. order_key (get_prop r ''name'')"
  have res: "fst (getCategories s) = map to_Category (sort_key ?key (category_rows s))"
    using assms by (rule getCategories_ok)
  have "map (\<lambda>c. order_key (c_name c)) (map to_Category (sort_key ?key (category_rows s)))
        = map ?key (sort_key ?key (category_rows s))"
    by (simp add: to_Category_def)
  then have srt: "sorted (map (\<lambda>c. order_key (c_name c)) (fst (getCategories s)))"
    unfolding res by (simp only: sorted_sort_key)
  have fields: "c_id (to_Category cat) = get_prop cat ''id''"
    "c_name (to_Category cat) = get_prop cat ''name''"
    "c_color (to_Category cat) = get_prop cat ''color''"
    "c_description (to_Category cat) = js_or (get_prop cat ''description'') (JStr [])"
    "get_prop cat ''userId'' = JUndefined \<longrightarrow> c_userId (to_Category cat) = get_prop cat ''user_id''"
    "get_prop cat ''createdAt'' = JUndefined \<longrightarrow> c_createdAt (to_Category cat) = get_prop cat ''created_at''"
    "truthy (get_prop cat ''userId'') \<longrightarrow> c_userId (to_Category cat) = get_prop cat ''userId''"
    "truthy (get_prop cat ''createdAt'') \<longrightarrow> c_createdAt (to_Category cat) = get_prop cat ''createdAt''"
    by (simp_all add: to_Category_def js_or_def ustr_def)
  show ?thesis
    using res srt fields by simp
qed

theorem getCategories_ordered_normalized_witness:
  "fst (attempt sample_store) = None
   \<and> map c_name (fst (getCategories sample_store)) = [JStr (ustr ''AI''), JStr (ustr ''Web'')]
   \<and> map c_userId (fst (getCategories sample_store)) = [JStr (ustr ''u2''), JStr (ustr ''u1'')]
   \<and> map c_createdAt (fst (getCategories sample_store)) = [JStr (ustr ''2024-01-02''), JStr (ustr ''2024-01-01'')]
   \<and> map c_description (fst (getCategories sample_store)) = [JStr [], JStr (ustr ''Web things'')]"
proof -
  have ok: "fst (attempt sample_store) = None"
    by (simp add: sample_store_idle)
  have srt: "sort_key (\<lambda>r. order_key (get_prop r ''name'')) (category_rows sample_store) =
    [ [(''id'', JStr (ustr ''ai'')), (''name'', JStr (ustr ''AI'')), (''color'', JStr (ustr ''#111'')),
       (''userId'', JStr (ustr ''u2'')), (''created_at'', JStr (ustr ''2024-01-02''))],
      [(''id'', JStr (ustr ''web'')), (''name'', JStr (ustr ''Web'')), (''color'', JStr (ustr ''#222'')),
       (''description'', JStr (ustr ''Web things'')), (''user_id'', JStr (ustr ''u1'')),
       (''created_at'', JStr (ustr ''2024-01-01''))] ]"
    by (simp add: sample_store_def get_prop_def ustr_def)
  have res: "fst (getCategories sample_store) = map to_Category
    [ [(''id'', JStr (ustr ''ai'')), (''name'', JStr (ustr ''AI'')), (''color'', JStr (ustr ''#111'')),
       (''userId'', JStr (ustr ''u2'')), (''created_at'', JStr (ustr ''2024-01-02''))],
      [(''id'', JStr (ustr ''web'')), (''name'', JStr (ustr ''Web'')), (''color'', JStr (ustr ''#222'')),
       (''description'', JStr (ustr ''Web things'')), (''user_id'', JStr (ustr ''u1'')),
       (''created_at'', JStr (ustr ''2024-01-01''))] ]"
    using getCategories_ordered_normalized [OF ok] by (simp only: srt)
  show ?thesis
    using ok by (simp add: res to_Category_def get_prop_def js_or_def ustr_def)
qed


subsection \<open>Tags through JSON\<close>

lemma hexval_hexdigit: "k < 16 \<Longrightarrow> hexval (hexdigit k) = Some k"
proof -
  assume "k < 16"
  then consider "k = 0" | "k = 1" | "k = 2" | "k = 3" | "k = 4" | "k = 5" | "k = 6" | "k = 7"
    | "k = 8" | "k = 9" | "k = 10" | "k = 11" | "k = 12" | "k = 13" | "k = 14" | "k = 15"
    by atomize_elim arith
  then show ?thesis
    by cases (simp_all add: hexval_def hexdigit_def)
qed

lemma hex_digits_recombine:
  "((n div 4096 * 16 + n div 256 mod 16) * 16 + n div 16 mod 16) * 16 + n mod 16 = (n::nat)"
proof -
  have "n div 16 div 16 = n div 256" "n div 256 div 16 = n div 4096"
    by (simp_all add: div_mult2_eq [symmetric])
  then have a: "n div 16 = n div 256 * 16 + n div 16 mod 16"
    and b: "n div 256 = n div 4096 * 16 + n div 256 mod 16"
    using div_mult_mod_eq [of "n div 16" 16] div_mult_mod_eq [of "n div 256" 16] by simp_all
  have c: "n = n div 16 * 16 + n mod 16"
    by simp
  show ?thesis
    using a b c by simp
qed

lemma surrogate_is_plain:
  "is_leading_surrogate c \<or> is_trailing_surrogate c \<Longrightarrow> c \<noteq> 0x22 \<and> c \<noteq> 0x5C \<and> \<not> c < 0x20"
  by (auto simp: is_leading_surrogate_def is_trailing_surrogate_def word_le_nat_alt word_less_nat_alt)

lemma hex4_UnicodeEscape:
  "hex4 (hexdigit (unat c div 4096)) (hexdigit (unat c div 256 mod 16))
        (hexdigit (unat c div 16 mod 16)) (hexdigit (unat c mod 16)) = Some c"
proof -
  have n: "unat c < 65536"
    using unsigned_less [of c, where ?'a = nat] by simp
  then have "unat c div 4096 < 16"
    by simp
  then have "hex4 (hexdigit (unat c div 4096)) (hexdigit (unat c div 256 mod 16))
        (hexdigit (unat c div 16 mod 16)) (hexdigit (unat c mod 16)) =
      Some (of_nat (((unat c div 4096 * 16 + unat c div 256 mod 16) * 16 + unat c div 16 mod 16) * 16
                    + unat c mod 16))"
    by (simp add: hex4_def hexval_hexdigit del: of_nat_add of_nat_mult)
  also have "\<dots> = Some (of_nat (unat c))"
    by (simp only: hex_digits_recombine)
  finally show ?thesis
    by simp
qed

lemma lex_string_UnicodeEscape:
  "lex_string (UnicodeEscape c @ rest) = cons_unit c (lex_string rest)"
  by (simp add: UnicodeEscape_def Let_def hex4_UnicodeEscape)

lemma lex_string_quote_unit:
  "lex_string (quote_unit c @ rest) = cons_unit c (lex_string rest)"
  by (simp add: quote_unit_def lex_string_UnicodeEscape unescape_def)

lemma lex_string_plain:
  "c \<noteq> 0x22 \<and> c \<noteq> 0x5C \<and> \<not> c < 0x20 \<Longrightarrow> lex_string (c # rest) = cons_unit c (lex_string rest)"
  by simp

lemma lex_string_quote_units:
  "lex_string (quote_units s @ 0x22 # rest) = Some (s, rest)"
proof (induction s rule: quote_units.induct)
  case 1
  show ?case by simp
next
  case (2 c)
  show ?case by (simp add: lex_string_quote_unit cons_unit_def)
next
  case (3 c d ds)
  show ?case
  proof (cases "is_leading_surrogate c \<and> is_trailing_surrogate d")
    case True
    then have q: "quote_units (c # d # ds) @ 0x22 # rest = c # d # quote_units ds @ 0x22 # rest"
      by simp
    have pc: "c \<noteq> 0x22 \<and> c \<noteq> 0x5C \<and> \<not> c < 0x20" and pd: "d \<noteq> 0x22 \<and> d \<noteq> 0x5C \<and> \<not> d < 0x20"
      using True by (simp_all add: surrogate_is_plain)
    have "lex_string (c # d # quote_units ds @ 0x22 # rest)
          = cons_unit c (cons_unit d (lex_string (quote_units ds @ 0x22 # rest)))"
      by (simp only: lex_string_plain [OF pc] lex_string_plain [OF pd])
    also have "\<dots> = Some (c # d # ds, rest)"
      using "3.IH"(1) [OF True] by (simp add: cons_unit_def)
    finally show ?thesis
      by (simp only: q)
  next
    case False
    then have q: "quote_units (c # d # ds) @ 0x22 # rest = quote_unit c @ quote_units (d # ds) @ 0x22 # rest"
      by auto
    have "lex_string (quote_unit c @ quote_units (d # ds) @ 0x22 # rest)
          = cons_unit c (lex_string (quote_units (d # ds) @ 0x22 # rest))"
      by (rule lex_string_quote_unit)
    also have "\<dots> = Some (c # d # ds, rest)"
      using "3.IH"(2) [OF False] by (simp add: cons_unit_def)
    finally show ?thesis
      by (simp only: q)
  qed
qed

lemma lex_QuoteJSONString:
  "lex (QuoteJSONString s @ rest) = cons_token (TString s) (lex rest)"
  by (simp add: QuoteJSONString_def is_json_ws_def lex_string_quote_units)

lemma run_append:
  "run cfg (xs @ ys) = (case run cfg xs of None \<Rightarrow> None | Some cfg' \<Rightarrow> run cfg' ys)"
  by (induction xs arbitrary: cfg) (auto split: option.splits)

text \<open>The elements of a non-empty array of strings, up to the closing bracket.\<close>

lemma elements_roundtrip:
  "\<exists>toks. lex (join_comma (map QuoteJSONString (t # ts)) @ rest) = map_option ((@) toks) (lex rest)
        \<and> run (Value, ArrayFrame es # st) toks = Some (CommaOrClose, ArrayFrame (es @ map JsonString (t # ts)) # st)
        \<and> run (ValueOrClose, ArrayFrame es # st) toks = Some (CommaOrClose, ArrayFrame (es @ map JsonString (t # ts)) # st)"
proof (induction ts arbitrary: t es)
  case Nil
  have "(@) [TString t] = (#) (TString t)"
    by (rule ext) simp
  then have "lex (join_comma (map QuoteJSONString [t]) @ rest) = map_option ((@) [TString t]) (lex rest)"
    by (simp add: lex_QuoteJSONString cons_token_def)
  moreover have "run (Value, ArrayFrame es # st) [TString t] = Some (CommaOrClose, ArrayFrame (es @ map JsonString [t]) # st)"
    by simp
  moreover have "run (ValueOrClose, ArrayFrame es # st) [TString t] = Some (CommaOrClose, ArrayFrame (es @ map JsonString [t]) # st)"
    by simp
  ultimately show ?case by blast
next
  case (Cons u us)
  from Cons.IH [of u "es @ [JsonString t]"] obtain toks where
    l: "lex (join_comma (map QuoteJSONString (u # us)) @ rest) = map_option ((@) toks) (lex rest)" and
    r: "run (Value, ArrayFrame (es @ [JsonString t]) # st) toks
          = Some (CommaOrClose, ArrayFrame ((es @ [JsonString t]) @ map JsonString (u # us)) # st)"
    by blast
  have "(@) (TString t # Comma # toks) = (\<lambda>x. TString t # Comma # toks @ x)"
    by (rule ext) simp
  then have "lex (join_comma (map QuoteJSONString (t # u # us)) @ rest)
        = map_option ((@) (TString t # Comma # toks)) (lex rest)"
    using l by (simp add: lex_QuoteJSONString cons_token_def is_json_ws_def option.map_comp comp_def)
  moreover have "run (Value, ArrayFrame es # st) (TString t # Comma # toks)
        = Some (CommaOrClose, ArrayFrame (es @ map JsonString (t # u # us)) # st)"
    using r by simp
  moreover have "run (ValueOrClose, ArrayFrame es # st) (TString t # Comma # toks)
        = Some (CommaOrClose, ArrayFrame (es @ map JsonString (t # u # us)) # st)"
    using r by simp
  ultimately show ?case by blast
qed

lemma JSON_parse_stringify:
  "JSON_parse (JStr (JSON_stringify ts)) = Inr (JsonArray (map JsonString ts))"
proof (cases ts)
  case Nil
  then show ?thesis
    by (simp add: JSON_parse_def JSON_stringify_def is_json_ws_def cons_token_def)
next
  case (Cons t us)
  obtain toks where
    l: "lex (join_comma (map QuoteJSONString (t # us)) @ [0x5D]) = map_option ((@) toks) (lex [0x5D])" and
    r: "run (ValueOrClose, [ArrayFrame []]) toks = Some (CommaOrClose, [ArrayFrame ([] @ map JsonString (t # us))])"
    using elements_roundtrip [of t us "[0x5D]" "[]" "[]"] by blast
  have lx: "lex (JSON_stringify ts) = Some (LBracket # toks @ [RBracket])"
    using l by (simp add: Cons JSON_stringify_def is_json_ws_def cons_token_def)
  have "run (Value, []) (LBracket # toks @ [RBracket]) = Some (End (JsonArray (map JsonString ts)), [])"
    using r by (simp add: Cons run_append)
  then show ?thesis
    by (simp add: JSON_parse_def lx)
qed

lemma JSON_stringify_nonempty: "JSON_stringify ts \<noteq> []"
  by (simp add: JSON_stringify_def)

lemma parseTags_stringify:
  "parseTags (JStr (JSON_stringify ts)) = JsonArray (map JsonString ts)"
  by (simp add: parseTags_def js_or_def JSON_stringify_nonempty JSON_parse_stringify)


lemma JSON_parse_empty_array: "JSON_parse (JStr (ustr ''[]'')) = Inr (JsonArray [])"
  using JSON_parse_stringify [of "[]"] by (simp add: JSON_stringify_def ustr_def)

lemma parseTags_malformed: "JSON_parse v = Inl e \<Longrightarrow> parseTags v = JsonArray []"
  by (cases "truthy v") (simp_all add: parseTags_def js_or_def JSON_parse_empty_array)

lemma transformArticle_tags:
  "map_sum id tags (transformArticle ThisService r) = Inr (parseTags (get_prop r ''tags''))"
  by (simp add: transformArticle_def)

text \<open>
  C3. A list of tag strings written with \<open>JSON.stringify\<close> (as \<open>createArticle\<close> and
  \<open>updateArticle\<close> do) and read back with \<open>parseTags\<close> (as \<open>transformArticle\<close>
  does) is the same list in the same order; and a stored value that \<open>JSON.parse\<close>
  rejects reads as the empty list.
\<close>

theorem tags_roundtrip:
  "parseTags (JStr (JSON_stringify ts)) = JsonArray (map JsonString ts)
   \<and> (get_prop r ''tags'' = JStr (JSON_stringify ts) \<longrightarrow>
        map_sum id tags (transformArticle ThisService r) = Inr (JsonArray (map JsonString ts)))
   \<and> (JSON_parse v = Inl e \<longrightarrow> parseTags v = JsonArray [])"
  by (simp add: parseTags_stringify transformArticle_tags parseTags_malformed)

theorem tags_roundtrip_witness:
  "JSON_stringify [ustr ''ai'', [0x61, 0x22, 0x0A, 0xD83D, 0xDE00, 0xDC00]]
     = [0x5B, 0x22, 0x61, 0x69, 0x22, 0x2C,
        0x22, 0x61, 0x5C, 0x22, 0x5C, 0x6E, 0xD83D, 0xDE00, 0x5C, 0x75, 0x64, 0x63, 0x30, 0x30, 0x22, 0x5D]
   \<and> parseTags (JStr (JSON_stringify [ustr ''ai'', [0x61, 0x22, 0x0A, 0xD83D, 0xDE00, 0xDC00]]))
     = JsonArray [JsonString (ustr ''ai''), JsonString [0x61, 0x22, 0x0A, 0xD83D, 0xDE00, 0xDC00]]
   \<and> get_prop [(''tags'', JStr (JSON_stringify [ustr ''ai'']))] ''tags'' = JStr (JSON_stringify [ustr ''ai''])
   \<and> map_sum id tags (transformArticle ThisService [(''tags'', JStr (JSON_stringify [ustr ''ai'']))])
     = Inr (JsonArray [JsonString (ustr ''ai'')])
   \<and> JSON_parse (JStr (ustr ''ai, ml'')) = Inl SyntaxError
   \<and> parseTags (JStr (ustr ''ai, ml'')) = JsonArray []"
proof -
  have s: "JSON_stringify [ustr ''ai'', [0x61, 0x22, 0x0A, 0xD83D, 0xDE00, 0xDC00]]
     = [0x5B, 0x22, 0x61, 0x69, 0x22, 0x2C,
        0x22, 0x61, 0x5C, 0x22, 0x5C, 0x6E, 0xD83D, 0xDE00, 0x5C, 0x75, 0x64, 0x63, 0x30, 0x30, 0x22, 0x5D]"
    by (simp add: JSON_stringify_def QuoteJSONString_def quote_unit_def is_leading_surrogate_def
        is_trailing_surrogate_def UnicodeEscape_def hexdigit_def ustr_def)
  have g: "get_prop [(''tags'', JStr (JSON_stringify [ustr ''ai'']))] ''tags'' = JStr (JSON_stringify [ustr ''ai''])"
    by (simp add: get_prop_def)
  have bad: "JSON_parse (JStr (ustr ''ai, ml'')) = Inl SyntaxError"
    by (simp add: JSON_parse_def ustr_def is_json_ws_def is_digit_def)
  show ?thesis
    using tags_roundtrip [of "[ustr ''ai'', [0x61, 0x22, 0x0A, 0xD83D, 0xDE00, 0xDC00]]" "[]" "JStr (ustr ''ai, ml'')" SyntaxError]
      tags_roundtrip [of "[ustr ''ai'']" "[(''tags'', JStr (JSON_stringify [ustr ''ai'']))]" JNull SyntaxError]
      s g bad
    by simp
qed

subsection \<open>The flag\<close>

lemma flag_decodes: "gt_zero (ToNumber (flag b)) = b"
  by (cases b)
    (simp_all add: flag_def ustr_def StringToNumber_def trim_def is_StrWhiteSpaceChar_def
      unsigned_decimal_def is_digit_def lex_exponent_def decimal_value_def digits_value_def
      digit_value_def scale10_def)

lemma flag_truthy: "truthy (flag b)"
  by (simp add: flag_def ustr_def)

lemma flag_text: "flag b = JStr (if b then ustr ''1'' else ustr ''0'')"
  by (simp add: flag_def)

lemma updateData_isAggregated:
  "map_of (updateData e d) ''isAggregated'' = map_option flag (p_isAggregated d)"
  by (simp add: updateData_def if_truthy_def split: option.splits)

lemma transformArticle_isAggregated:
  "map_sum id isAggregated (transformArticle ThisService r)
   = Inr (gt_zero (ToNumber (js_or (get_prop r ''isAggregated'') (get_prop r ''is_aggregated''))))"
  by (simp add: transformArticle_def)

text \<open>
  C4. The flag is written as \<open>"1"\<close> for true and \<open>"0"\<close> for false by
  \<open>createArticle\<close>, by \<open>updateArticle\<close> when a boolean is supplied, and in the filter
  clause of \<open>getArticles\<close>; \<open>transformArticle\<close> reads it as \<open>Number(v) > 0\<close> of the
  value \<open>v\<close> stored under \<open>isAggregated\<close> (or, when that is falsy, under
  \<open>is_aggregated\<close>), so that what was written reads back as the boolean it encodes.
\<close>

theorem isAggregated_encoding:
  "get_prop (new_record e d) ''isAggregated'' = JStr (if p_isAggregated d = Some True then ustr ''1'' else ustr ''0'')
   \<and> (p_isAggregated d = Some b \<longrightarrow>
        map_of (updateData e d) ''isAggregated'' = Some (JStr (if b then ustr ''1'' else ustr ''0'')))
   \<and> (f_isAggregated filters = Some b \<longrightarrow>
        Eq ''isAggregated'' (JStr (if b then ustr ''1'' else ustr ''0'')) \<in> set (whereConditions filters))
   \<and> map_sum id isAggregated (transformArticle ThisService r)
       = Inr (gt_zero (ToNumber (js_or (get_prop r ''isAggregated'') (get_prop r ''is_aggregated''))))
   \<and> (get_prop r ''isAggregated'' = JStr (if b then ustr ''1'' else ustr ''0'') \<longrightarrow>
        map_sum id isAggregated (transformArticle ThisService r) = Inr b)"
proof -
  have w1: "get_prop (new_record e d) ''isAggregated'' = JStr (if p_isAggregated d = Some True then ustr ''1'' else ustr ''0'')"
    by (simp add: new_record_def get_prop_def flag_def)
  have w2: "p_isAggregated d = Some b \<longrightarrow>
        map_of (updateData e d) ''isAggregated'' = Some (JStr (if b then ustr ''1'' else ustr ''0''))"
    by (simp add: updateData_isAggregated flag_def)
  have w3: "f_isAggregated filters = Some b \<longrightarrow>
        Eq ''isAggregated'' (JStr (if b then ustr ''1'' else ustr ''0'')) \<in> set (whereConditions filters)"
    by (simp add: whereConditions_def flag_def)
  have r2: "get_prop r ''isAggregated'' = JStr (if b then ustr ''1'' else ustr ''0'') \<longrightarrow>
        map_sum id isAggregated (transformArticle ThisService r) = Inr b"
    using flag_decodes [of b] flag_truthy [of b]
    by (simp add: transformArticle_isAggregated js_or_def flag_def)
  show ?thesis
    using w1 w2 w3 r2 by (simp only: transformArticle_isAggregated simp_thms)
qed

theorem isAggregated_encoding_witness:
  "p_isAggregated (nothing\<lparr>p_isAggregated := Some False\<rparr>) = Some False
   \<and> map_of (updateData sample_env (nothing\<lparr>p_isAggregated := Some False\<rparr>)) ''isAggregated'' = Some (JStr (ustr ''0''))
   \<and> get_prop (new_record sample_env (nothing\<lparr>p_isAggregated := Some False\<rparr>)) ''isAggregated'' = JStr (ustr ''0'')
   \<and> f_isAggregated (no_filters\<lparr>f_isAggregated := Some False\<rparr>) = Some False
   \<and> Eq ''isAggregated'' (JStr (ustr ''0'')) \<in> set (whereConditions (no_filters\<lparr>f_isAggregated := Some False\<rparr>))
   \<and> get_prop (sample_article ''a1'' ''ai'' ''2024-03-01'' False) ''isAggregated'' = JStr (ustr ''0'')
   \<and> map_sum id isAggregated (transformArticle ThisService (sample_article ''a1'' ''ai'' ''2024-03-01'' False)) = Inr False"
  using isAggregated_encoding [of sample_env "nothing\<lparr>p_isAggregated := Some False\<rparr>" False
      "no_filters\<lparr>f_isAggregated := Some False\<rparr>" "sample_article ''a1'' ''ai'' ''2024-03-01'' False"]
  by (auto simp: nothing_def no_filters_def sample_article_props flag_def)


subsection \<open>Updates\<close>

lemma if_truthy_map_of:
  "map_of (if_truthy k x) k' = (if k' = k \<and> truthy (opt x) then Some (opt x) else None)"
  by (simp add: if_truthy_def)

lemma written_alt: "written x = (if truthy (opt x) then Some (opt x) else None)"
  by (cases x) (simp_all add: written_def)

lemma updateData_writes:
  "map_of (updateData e d) ''updatedAt'' = Some (JStr (iso_updatedAt e))"
  "map_of (updateData e d) ''title'' = written (p_title d)"
  "map_of (updateData e d) ''content'' = written (p_content d)"
  "map_of (updateData e d) ''excerpt'' = written (p_excerpt d)"
  "map_of (updateData e d) ''author'' = written (p_author d)"
  "map_of (updateData e d) ''category'' = written (p_category d)"
  "map_of (updateData e d) ''categoryName'' = written (p_categoryName d)"
  "map_of (updateData e d) ''categoryColor'' = written (p_categoryColor d)"
  "map_of (updateData e d) ''featuredImage'' = written (p_featuredImage d)"
  "map_of (updateData e d) ''publishedAt'' = written (p_publishedAt d)"
  "map_of (updateData e d) ''readTime'' = written (p_readTime d)"
  "map_of (updateData e d) ''sourceName'' = written (p_sourceName d)"
  "map_of (updateData e d) ''sourceUrl'' = written (p_sourceUrl d)"
  "map_of (updateData e d) ''tags'' = map_option (\<lambda>ts. JStr (JSON_stringify ts)) (p_tags d)"
  by (simp_all add: updateData_def if_truthy_map_of map_add_def written_alt split: option.splits)

lemma updateData_other_keys:
  "k \<notin> set [''updatedAt'', ''title'', ''content'', ''excerpt'', ''author'', ''category'', ''categoryName'',
              ''categoryColor'', ''featuredImage'', ''publishedAt'', ''readTime'', ''isAggregated'',
              ''sourceName'', ''sourceUrl'', ''tags''] \<Longrightarrow> map_of (updateData e d) k = None"
  by (simp add: updateData_def if_truthy_map_of map_add_def split: option.splits)

lemma keys_step:
  "distinct (map fst rest) \<and> fst ` set rest \<subseteq> K \<Longrightarrow> k \<notin> K \<Longrightarrow> p = [] \<or> (\<exists>v. p = [(k, v)])
   \<Longrightarrow> distinct (map fst (p @ rest)) \<and> fst ` set (p @ rest) \<subseteq> insert k K"
  by auto

lemma if_truthy_piece: "if_truthy k x = [] \<or> (\<exists>v. if_truthy k x = [(k, v)])"
  by (simp add: if_truthy_def)

lemma updateData_distinct: "distinct (map fst (updateData e d))"
proof -
  have "distinct (map fst (updateData e d)) \<and>
        fst ` set (updateData e d) \<subseteq>
          {''updatedAt'', ''title'', ''content'', ''excerpt'', ''author'', ''category'', ''categoryName'',
           ''categoryColor'', ''featuredImage'', ''publishedAt'', ''readTime'', ''isAggregated'',
           ''sourceName'', ''sourceUrl'', ''tags''}"
    unfolding updateData_def
    by (intro keys_step if_truthy_piece) (simp_all split: option.splits)
  then show ?thesis ..
qed

lemma get_prop_update:
  "get_prop (AList.update k' v r) k = (if k = k' then v else get_prop r k)"
  by (simp add: get_prop_def update_conv')

lemma get_prop_assign:
  "distinct (map fst patch) \<Longrightarrow>
   get_prop (assign r patch) k = (case map_of patch k of Some v \<Rightarrow> v | None \<Rightarrow> get_prop r k)"
proof (induction patch arbitrary: r)
  case Nil
  show ?case by (simp add: assign_def)
next
  case (Cons p ps)
  obtain k' v where p: "p = (k', v)" by (cases p)
  have absent: "map_of ps k' = None"
    using Cons.prems by (simp add: p map_of_eq_None_iff)
  have "get_prop (assign r (p # ps)) k = get_prop (assign (AList.update k' v r) ps) k"
    by (simp add: assign_def p)
  also have "\<dots> = (case map_of ps k of Some w \<Rightarrow> w | None \<Rightarrow> get_prop (AList.update k' v r) k)"
    using Cons.prems by (intro Cons.IH) simp
  also have "\<dots> = (case map_of (p # ps) k of Some w \<Rightarrow> w | None \<Rightarrow> get_prop r k)"
    using absent by (cases "k = k'") (simp_all add: p get_prop_update split: option.splits)
  finally show ?case .
qed

lemma get_prop_assign_updateData:
  "get_prop (assign r (updateData e d)) k =
   (case map_of (updateData e d) k of Some v \<Rightarrow> v | None \<Rightarrow> get_prop r k)"
  by (rule get_prop_assign) (rule updateData_distinct)

lemma assign_keeps_id: "get_prop (assign r (updateData e d)) ''id'' = get_prop r ''id''"
  by (simp add: get_prop_assign_updateData updateData_other_keys)

lemma filter_updated:
  "filter (\<lambda>r. get_prop r ''id'' = JStr i)
     (map (\<lambda>r. if get_prop r ''id'' = JStr i then assign r (updateData e d) else r) rows)
   = map (\<lambda>r. assign r (updateData e d)) (filter (\<lambda>r. get_prop r ''id'' = JStr i) rows)"
  by (induction rows) (simp_all add: assign_keeps_id)

lemma transformArticle_bound: "\<exists>a. transformArticle ThisService r = Inr a"
  by (simp add: transformArticle_def)

lemma getArticleById_idle:
  "faults s = [] \<Longrightarrow>
   getArticleById i s =
     (case filter (\<lambda>r. get_prop r ''id'' = JStr i) (article_rows s) of
        [] \<Rightarrow> (None, s)
      | r # rs \<Rightarrow> (case transformArticle ThisService r of Inl x \<Rightarrow> (None, s) | Inr a \<Rightarrow> (Some a, s)))"
  by (cases "filter (\<lambda>r. get_prop r ''id'' = JStr i) (article_rows s)")
    (simp_all add: getArticleById_def articles_list_def attempt_idle db_select_def)

lemma updateArticle_idle:
  "faults s = [] \<Longrightarrow>
   updateArticle e i d s =
     getArticleById i
       (s\<lparr>article_rows := map (\<lambda>r. if get_prop r ''id'' = JStr i then assign r (updateData e d) else r)
                              (article_rows s)\<rparr>)"
  by (simp add: updateArticle_def articles_update_def attempt_idle)

lemma updateArticle_result:
  assumes "faults s = []" and "filter (\<lambda>r. get_prop r ''id'' = JStr i) (article_rows s) = r # others"
    and "transformArticle ThisService (assign r (updateData e d)) = Inr new"
  shows "fst (updateArticle e i d s) = Some new"
    and "article_rows (snd (updateArticle e i d s)) =
         map (\<lambda>r. if get_prop r ''id'' = JStr i then assign r (updateData e d) else r) (article_rows s)"
  using assms by (simp_all add: updateArticle_idle getArticleById_idle filter_updated)

lemma title_only:
  "x \<noteq> [] \<Longrightarrow> updateData e (nothing\<lparr>p_title := Some x\<rparr>) = [(''updatedAt'', JStr (iso_updatedAt e)), (''title'', JStr x)]"
  by (simp add: updateData_def if_truthy_def nothing_def)

lemma title_only_transform:
  assumes "x \<noteq> []" and "iso_updatedAt e \<noteq> []" and "transformArticle ThisService r = Inr old"
  shows "transformArticle ThisService (assign r (updateData e (nothing\<lparr>p_title := Some x\<rparr>)))
         = Inr (old\<lparr>title := JStr x, updatedAt := JStr (iso_updatedAt e)\<rparr>)"
proof -
  have g: "get_prop (assign r (updateData e (nothing\<lparr>p_title := Some x\<rparr>))) k =
        (if k = ''updatedAt'' then JStr (iso_updatedAt e) else if k = ''title'' then JStr x else get_prop r k)" for k
    by (simp add: get_prop_assign_updateData) (simp add: title_only [OF assms(1)])
  have old: "old = (case transformArticle ThisService r of Inr a \<Rightarrow> a)"
    by (simp add: assms(3))
  show ?thesis
    unfolding old using assms(1,2) by (simp add: transformArticle_def g js_or_def)
qed


lemma sample_store_by_id:
  "filter (\<lambda>r. get_prop r ''id'' = JStr (ustr ''a1'')) (article_rows sample_store)
     = [sample_article ''a1'' ''ai'' ''2024-03-01'' False]"
  "filter (\<lambda>r. get_prop r ''id'' = JStr (ustr ''a2'')) (article_rows sample_store)
     = [sample_article ''a2'' ''web'' ''2024-03-04'' True]"
  by (simp_all add: sample_store_def sample_article_props ustr_def)

lemma sample_store_faults: "faults sample_store = []"
  by (simp add: sample_store_def)

text \<open>
  C6, as the code has it. \<open>updateArticle\<close> always writes \<open>updatedAt\<close>; it writes a
  string field when the field is supplied and is not empty; it writes \<open>isAggregated\<close>
  whenever a boolean is supplied, false included (as \<open>"0"\<close>), and \<open>tags\<close> whenever a
  list is supplied; it writes no other field. When the store is reachable and holds the
  article, every field of the record that is not written keeps its value, and the article
  returned is the normalization of the record so updated: after
  \<open>update(id, {title: x})\<close> with a non-empty \<open>x\<close> it is the article as it was, with
  title \<open>x\<close> and the new \<open>updatedAt\<close>.
\<close>

theorem updateArticle_sparse_write:
  assumes "faults s = []"
    and "filter (\<lambda>r. get_prop r ''id'' = JStr i) (article_rows s) = r # others"
    and "transformArticle ThisService r = Inr old"
  shows "map_of (updateData e d) ''updatedAt'' = Some (JStr (iso_updatedAt e))
       \<and> map_of (updateData e d) ''title'' = written (p_title d)
       \<and> map_of (updateData e d) ''content'' = written (p_content d)
       \<and> map_of (updateData e d) ''excerpt'' = written (p_excerpt d)
       \<and> map_of (updateData e d) ''author'' = written (p_author d)
       \<and> map_of (updateData e d) ''category'' = written (p_category d)
       \<and> map_of (updateData e d) ''categoryName'' = written (p_categoryName d)
       \<and> map_of (updateData e d) ''categoryColor'' = written (p_categoryColor d)
       \<and> map_of (updateData e d) ''featuredImage'' = written (p_featuredImage d)
       \<and> map_of (updateData e d) ''publishedAt'' = written (p_publishedAt d)
       \<and> map_of (updateData e d) ''readTime'' = written (p_readTime d)
       \<and> map_of (updateData e d) ''sourceName'' = written (p_sourceName d)
       \<and> map_of (updateData e d) ''sourceUrl'' = written (p_sourceUrl d)
       \<and> map_of (updateData e d) ''isAggregated'' =
           (case p_isAggregated d of None \<Rightarrow> None | Some b \<Rightarrow> Some (JStr (if b then ustr ''1'' else ustr ''0'')))
       \<and> map_of (updateData e d) ''tags'' =
           (case p_tags d of None \<Rightarrow> None | Some ts \<Rightarrow> Some (JStr (JSON_stringify ts)))
       \<and> (k \<notin> set [''updatedAt'', ''title'', ''content'', ''excerpt'', ''author'', ''category'',
                     ''categoryName'', ''categoryColor'', ''featuredImage'', ''publishedAt'', ''readTime'',
                     ''isAggregated'', ''sourceName'', ''sourceUrl'', ''tags'']
            \<longrightarrow> map_of (updateData e d) k = None)
       \<and> article_rows (snd (updateArticle e i d s)) =
           map (\<lambda>r. if get_prop r ''id'' = JStr i then assign r (updateData e d) else r) (article_rows s)
       \<and> get_prop (assign r (updateData e d)) k =
           (case map_of (updateData e d) k of Some v \<Rightarrow> v | None \<Rightarrow> get_prop r k)
       \<and> fst (getArticleById i s) = Some old
       \<and> (\<exists>new. transformArticle ThisService (assign r (updateData e d)) = Inr new
                \<and> fst (updateArticle e i d s) = Some new)
       \<and> (x \<noteq> [] \<and> iso_updatedAt e \<noteq> [] \<longrightarrow>
            fst (updateArticle e i (nothing\<lparr>p_title := Some x\<rparr>) s)
              = Some (old\<lparr>title := JStr x, updatedAt := JStr (iso_updatedAt e)\<rparr>))"
proof -
  have flag_written: "map_of (updateData e d) ''isAggregated'' =
           (case p_isAggregated d of None \<Rightarrow> None | Some b \<Rightarrow> Some (JStr (if b then ustr ''1'' else ustr ''0'')))"
    by (simp add: updateData_isAggregated flag_def split: option.splits)
  have tags_written: "map_of (updateData e d) ''tags'' =
           (case p_tags d of None \<Rightarrow> None | Some ts \<Rightarrow> Some (JStr (JSON_stringify ts)))"
    by (simp add: updateData_writes split: option.splits)
  have others: "k \<notin> set [''updatedAt'', ''title'', ''content'', ''excerpt'', ''author'', ''category'',
                     ''categoryName'', ''categoryColor'', ''featuredImage'', ''publishedAt'', ''readTime'',
                     ''isAggregated'', ''sourceName'', ''sourceUrl'', ''tags'']
            \<longrightarrow> map_of (updateData e d) k = None"
    using updateData_other_keys [of k e d] by blast
  obtain new where new: "transformArticle ThisService (assign r (updateData e d)) = Inr new"
    using transformArticle_bound by blast
  have res: "fst (updateArticle e i d s) = Some new"
    and rows: "article_rows (snd (updateArticle e i d s)) =
           map (\<lambda>r. if get_prop r ''id'' = JStr i then assign r (updateData e d) else r) (article_rows s)"
    using updateArticle_result [OF assms(1,2) new] by blast+
  have before: "fst (getArticleById i s) = Some old"
    using assms by (simp add: getArticleById_idle)
  have scenario: "x \<noteq> [] \<and> iso_updatedAt e \<noteq> [] \<longrightarrow>
            fst (updateArticle e i (nothing\<lparr>p_title := Some x\<rparr>) s)
              = Some (old\<lparr>title := JStr x, updatedAt := JStr (iso_updatedAt e)\<rparr>)"
    using updateArticle_result(1) [OF assms(1,2) title_only_transform [OF _ _ assms(3)]] by blast
  have ex: "\<exists>new. transformArticle ThisService (assign r (updateData e d)) = Inr new
                \<and> fst (updateArticle e i d s) = Some new"
    using new res by blast
  show ?thesis
    using flag_written tags_written others rows before scenario ex
    by (simp only: updateData_writes get_prop_assign_updateData simp_thms)
qed

theorem updateArticle_sparse_write_witness:
  "faults sample_store = []
   \<and> filter (\<lambda>r. get_prop r ''id'' = JStr (ustr ''a1'')) (article_rows sample_store)
       = sample_article ''a1'' ''ai'' ''2024-03-01'' False # []
   \<and> ustr ''X'' \<noteq> [] \<and> iso_updatedAt sample_env \<noteq> []
   \<and> map_option title (fst (getArticleById (ustr ''a1'') sample_store)) = Some (JStr (ustr ''Title of a1''))
   \<and> map_option title (fst (updateArticle sample_env (ustr ''a1'') (nothing\<lparr>p_title := Some (ustr ''X'')\<rparr>) sample_store))
       = Some (JStr (ustr ''X''))
   \<and> map_option updatedAt (fst (updateArticle sample_env (ustr ''a1'') (nothing\<lparr>p_title := Some (ustr ''X'')\<rparr>) sample_store))
       = Some (JStr (ustr ''2024-04-05T19:34:38.903Z''))
   \<and> map_option author (fst (updateArticle sample_env (ustr ''a1'') (nothing\<lparr>p_title := Some (ustr ''X'')\<rparr>) sample_store))
       = map_option author (fst (getArticleById (ustr ''a1'') sample_store))
   \<and> map_of (updateData sample_env (nothing\<lparr>p_title := Some (ustr ''X''), p_excerpt := Some []\<rparr>)) ''title''
       = Some (JStr (ustr ''X''))
   \<and> map_of (updateData sample_env (nothing\<lparr>p_title := Some (ustr ''X''), p_excerpt := Some []\<rparr>)) ''excerpt'' = None"
proof -
  obtain old where old: "transformArticle ThisService (sample_article ''a1'' ''ai'' ''2024-03-01'' False) = Inr old"
    using transformArticle_bound by blast
  have t: "title old = JStr (ustr ''Title of a1'')"
    using old by (auto simp: transformArticle_def sample_article_def get_prop_def ustr_def)
  have ne: "ustr ''X'' \<noteq> []" "iso_updatedAt sample_env \<noteq> []"
    by (simp_all add: ustr_def sample_env_def)
  note inst = updateArticle_sparse_write [OF sample_store_faults sample_store_by_id(1) old]
  have w: "written (Some (ustr ''X'')) = Some (JStr (ustr ''X''))" "written (Some []) = None"
    by (simp_all add: written_def ustr_def)
  show ?thesis
    using inst [of sample_env "nothing\<lparr>p_title := Some (ustr ''X''), p_excerpt := Some []\<rparr>" "''title''" "ustr ''X''"]
      ne t w sample_store_faults sample_store_by_id(1)
    by (simp add: sample_env_def)
qed

text \<open>
  C6 as stated fails on the flag: a supplied \<open>false\<close> is written. The article \<open>a2\<close> is
  stored with the flag \<open>"1"\<close> and reads as aggregated; after
  \<open>updateArticle("a2", {isAggregated: false})\<close> the store holds \<open>"0"\<close> and the article
  reads as not aggregated.
\<close>

theorem updateArticle_writes_false:
  "p_isAggregated (nothing\<lparr>p_isAggregated := Some False\<rparr>) = Some False
   \<and> map_of (updateData sample_env (nothing\<lparr>p_isAggregated := Some False\<rparr>)) ''isAggregated'' = Some (JStr (ustr ''0''))
   \<and> map_option isAggregated (fst (getArticleById (ustr ''a2'') sample_store)) = Some True
   \<and> map_option isAggregated
        (fst (updateArticle sample_env (ustr ''a2'') (nothing\<lparr>p_isAggregated := Some False\<rparr>) sample_store))
       = Some False"
proof -
  let ?d = "nothing\<lparr>p_isAggregated := Some False\<rparr>"
  let ?r = "sample_article ''a2'' ''web'' ''2024-03-04'' True"
  have w: "map_of (updateData sample_env ?d) ''isAggregated'' = Some (flag False)"
    by (simp add: updateData_isAggregated)
  obtain old where old: "transformArticle ThisService ?r = Inr old"
    using transformArticle_bound by blast
  have "map_sum id isAggregated (transformArticle ThisService ?r) = Inr True"
    using flag_decodes [of True] flag_truthy [of True]
    by (simp add: transformArticle_isAggregated sample_article_props js_or_def)
  then have o: "isAggregated old = True"
    by (simp add: old)
  have before: "fst (getArticleById (ustr ''a2'') sample_store) = Some old"
    by (simp add: getArticleById_idle sample_store_faults sample_store_by_id old)
  obtain new where new: "transformArticle ThisService (assign ?r (updateData sample_env ?d)) = Inr new"
    using transformArticle_bound by blast
  have "map_sum id isAggregated (transformArticle ThisService (assign ?r (updateData sample_env ?d))) = Inr False"
    using flag_decodes [of False] flag_truthy [of False]
    by (simp add: transformArticle_isAggregated get_prop_assign_updateData w js_or_def)
  then have n: "isAggregated new = False"
    by (simp add: new)
  have after: "fst (updateArticle sample_env (ustr ''a2'') ?d sample_store) = Some new"
    using updateArticle_result(1) [OF sample_store_faults sample_store_by_id(2) new] .
  show ?thesis
    using w by (simp add: before after o n flag_def)
qed


subsection \<open>Creation\<close>

lemma new_record_fields:
  "get_prop (new_record e d) ''id'' = JStr (new_id e)"
  "get_prop (new_record e d) ''title'' = js_or (opt (p_title d)) (JStr [])"
  "get_prop (new_record e d) ''content'' = js_or (opt (p_content d)) (JStr [])"
  "get_prop (new_record e d) ''excerpt'' = js_or (opt (p_excerpt d)) (JStr [])"
  "get_prop (new_record e d) ''author'' = js_or (opt (p_author d)) (JStr [])"
  "get_prop (new_record e d) ''category'' = js_or (opt (p_category d)) (JStr [])"
  "get_prop (new_record e d) ''categoryName'' = js_or (opt (p_categoryName d)) (JStr [])"
  "get_prop (new_record e d) ''categoryColor'' = js_or (opt (p_categoryColor d)) (JStr (ustr ''#2563eb''))"
  "get_prop (new_record e d) ''featuredImage'' = js_or (opt (p_featuredImage d)) (JStr [])"
  "get_prop (new_record e d) ''publishedAt'' = js_or (opt (p_publishedAt d)) (JStr (date_part (iso_publishedAt e)))"
  "get_prop (new_record e d) ''readTime'' = js_or (opt (p_readTime d)) (JStr (ustr ''5 min read''))"
  "get_prop (new_record e d) ''isAggregated'' = flag (p_isAggregated d = Some True)"
  "get_prop (new_record e d) ''sourceName'' = js_or (opt (p_sourceName d)) JNull"
  "get_prop (new_record e d) ''sourceUrl'' = js_or (opt (p_sourceUrl d)) JNull"
  "get_prop (new_record e d) ''tags'' = JStr (JSON_stringify (case p_tags d of None \<Rightarrow> [] | Some ts \<Rightarrow> ts))"
  "get_prop (new_record e d) ''userId'' = js_or (opt (p_userId d)) (JStr (ustr ''user''))"
  "get_prop (new_record e d) ''createdAt'' = JStr (iso_createdAt e)"
  "get_prop (new_record e d) ''updatedAt'' = JStr (iso_updatedAt e)"
  "get_prop (new_record e d) ''is_aggregated'' = JUndefined"
  by (simp_all add: new_record_def get_prop_def ustr_def)

lemma createArticle_ok:
  assumes "fst (attempt s) = None" and "transformArticle ThisService (new_record e d) = Inr a"
  shows "fst (createArticle e d s) = Some a"
    and "article_rows (snd (createArticle e d s)) = article_rows s @ [new_record e d]"
  using assms attempt_rows(2) [of s]
  by (cases "attempt s"; simp add: createArticle_def articles_create_def)+

text \<open>
  C7, as the code has it. \<open>createArticle\<close> writes a record whose identifier is
  \<open>"article_"\<close>, the timestamp, \<open>"_"\<close> and up to nine characters of the random text;
  an omitted field gets its default: the empty string for \<open>title\<close>, \<open>content\<close>,
  \<open>excerpt\<close>, \<open>author\<close>, \<open>category\<close>, \<open>categoryName\<close> and \<open>featuredImage\<close>,
  \<open>"#2563eb"\<close> for \<open>categoryColor\<close>, the date of the day for \<open>publishedAt\<close>,
  \<open>"5 min read"\<close> for \<open>readTime\<close>, null for \<open>sourceName\<close> and \<open>sourceUrl\<close>,
  \<open>"user"\<close> for \<open>userId\<close>, the empty list for \<open>tags\<close>, false for the flag; the flag
  is written as \<open>"1"\<close> or \<open>"0"\<close> and the tags as a JSON array; \<open>createdAt\<close> and
  \<open>updatedAt\<close> are the current time. When the call succeeds the record is added to the
  store and the article returned is its normalization, with the tags and the flag of the input;
  when the call rejects the result is null.
\<close>

theorem createArticle_defaults:
  assumes "fst (attempt s) = None"
  shows "get_prop (new_record e d) ''id''
           = JStr (ustr ''article_'' @ decimal (Date_now e) @ ustr ''_'' @ take 9 (drop 2 (Math_random_36 e)))
       \<and> (p_title d = None \<longrightarrow> get_prop (new_record e d) ''title'' = JStr [])
       \<and> (p_content d = None \<longrightarrow> get_prop (new_record e d) ''content'' = JStr [])
       \<and> (p_excerpt d = None \<longrightarrow> get_prop (new_record e d) ''excerpt'' = JStr [])
       \<and> (p_author d = None \<longrightarrow> get_prop (new_record e d) ''author'' = JStr [])
       \<and> (p_category d = None \<longrightarrow> get_prop (new_record e d) ''category'' = JStr [])
       \<and> (p_categoryName d = None \<longrightarrow> get_prop (new_record e d) ''categoryName'' = JStr [])
       \<and> (p_categoryColor d = None \<longrightarrow> get_prop (new_record e d) ''categoryColor'' = JStr (ustr ''#2563eb''))
       \<and> (p_featuredImage d = None \<longrightarrow> get_prop (new_record e d) ''featuredImage'' = JStr [])
       \<and> (p_publishedAt d = None \<longrightarrow> get_prop (new_record e d) ''publishedAt'' = JStr (date_part (iso_publishedAt e)))
       \<and> (p_readTime d = None \<longrightarrow> get_prop (new_record e d) ''readTime'' = JStr (ustr ''5 min read''))
       \<and> (p_sourceName d = None \<longrightarrow> get_prop (new_record e d) ''sourceName'' = JNull)
       \<and> (p_sourceUrl d = None \<longrightarrow> get_prop (new_record e d) ''sourceUrl'' = JNull)
       \<and> (p_userId d = None \<longrightarrow> get_prop (new_record e d) ''userId'' = JStr (ustr ''user''))
       \<and> (p_tags d = None \<longrightarrow> get_prop (new_record e d) ''tags'' = JStr (ustr ''[]''))
       \<and> (p_isAggregated d = None \<longrightarrow> get_prop (new_record e d) ''isAggregated'' = JStr (ustr ''0''))
       \<and> get_prop (new_record e d) ''isAggregated''
           = JStr (if p_isAggregated d = Some True then ustr ''1'' else ustr ''0'')
       \<and> get_prop (new_record e d) ''tags''
           = JStr (JSON_stringify (case p_tags d of None \<Rightarrow> [] | Some ts \<Rightarrow> ts))
       \<and> get_prop (new_record e d) ''createdAt'' = JStr (iso_createdAt e)
       \<and> get_prop (new_record e d) ''updatedAt'' = JStr (iso_updatedAt e)
       \<and> (\<exists>a. transformArticle ThisService (new_record e d) = Inr a
              \<and> fst (createArticle e d s) = Some a
              \<and> art_id a = get_prop (new_record e d) ''id''
              \<and> isAggregated a = (p_isAggregated d = Some True)
              \<and> tags a = JsonArray (map JsonString (case p_tags d of None \<Rightarrow> [] | Some ts \<Rightarrow> ts)))
       \<and> article_rows (snd (createArticle e d s)) = article_rows s @ [new_record e d]
       \<and> fst (createArticle e d (s\<lparr>faults := Some ex # fs\<rparr>)) = None"
proof -
  obtain a where a: "transformArticle ThisService (new_record e d) = Inr a"
    using transformArticle_bound by blast
  have ok: "fst (createArticle e d s) = Some a"
    and rows: "article_rows (snd (createArticle e d s)) = article_rows s @ [new_record e d]"
    using createArticle_ok [OF assms a] by blast+
  have "map_sum id isAggregated (transformArticle ThisService (new_record e d)) = Inr (p_isAggregated d = Some True)"
    using flag_decodes [of "p_isAggregated d = Some True"] flag_truthy [of "p_isAggregated d = Some True"]
    by (simp add: transformArticle_isAggregated new_record_fields js_or_def)
  then have ag: "isAggregated a = (p_isAggregated d = Some True)"
    by (simp add: a)
  have "map_sum id tags (transformArticle ThisService (new_record e d))
        = Inr (JsonArray (map JsonString (case p_tags d of None \<Rightarrow> [] | Some ts \<Rightarrow> ts)))"
    by (simp add: transformArticle_tags new_record_fields parseTags_stringify)
  then have tg: "tags a = JsonArray (map JsonString (case p_tags d of None \<Rightarrow> [] | Some ts \<Rightarrow> ts))"
    by (simp add: a)
  have i: "art_id a = get_prop (new_record e d) ''id''"
    using a by (auto simp: transformArticle_def)
  have ex: "\<exists>a. transformArticle ThisService (new_record e d) = Inr a
              \<and> fst (createArticle e d s) = Some a
              \<and> art_id a = get_prop (new_record e d) ''id''
              \<and> isAggregated a = (p_isAggregated d = Some True)
              \<and> tags a = JsonArray (map JsonString (case p_tags d of None \<Rightarrow> [] | Some ts \<Rightarrow> ts))"
    using a ok i ag tg by blast
  have fail: "fst (createArticle e d (s\<lparr>faults := Some ex # fs\<rparr>)) = None"
    by (simp add: createArticle_def articles_create_def attempt_def)
  have e0: "JSON_stringify [] = ustr ''[]''"
    by (simp add: JSON_stringify_def ustr_def)
  show ?thesis
    using ex rows fail
    by (simp add: new_record_fields new_id_def js_or_def flag_def e0)
qed

theorem createArticle_defaults_witness:
  "fst (attempt sample_store) = None
   \<and> p_title nothing = None \<and> p_userId nothing = None \<and> p_publishedAt nothing = None
   \<and> get_prop (new_record sample_env nothing) ''id'' = JStr (ustr ''article_1712345678901_k3j9x2m1q'')
   \<and> get_prop (new_record sample_env nothing) ''title'' = JStr []
   \<and> get_prop (new_record sample_env nothing) ''publishedAt'' = JStr (ustr ''2024-04-05'')
   \<and> get_prop (new_record sample_env nothing) ''userId'' = JStr (ustr ''user'')
   \<and> map_option tags (fst (createArticle sample_env (nothing\<lparr>p_tags := Some [ustr ''ai'']\<rparr>) sample_store))
       = Some (JsonArray [JsonString (ustr ''ai'')])
   \<and> length (article_rows (snd (createArticle sample_env nothing sample_store))) = 5"
proof -
  have ok: "fst (attempt sample_store) = None"
    by (simp add: sample_store_idle)
  have "decimal 1712345678901 = ustr ''1712345678901''"
    by (simp add: decimal.simps ustr_def)
  then have i: "ustr ''article_'' @ decimal (Date_now sample_env) @ ustr ''_'' @ take 9 (drop 2 (Math_random_36 sample_env))
           = ustr ''article_1712345678901_k3j9x2m1q''"
    by (simp add: sample_env_def ustr_def)
  have p: "date_part (iso_publishedAt sample_env) = ustr ''2024-04-05''"
    by (simp add: sample_env_def date_part_def ustr_def)
  have n: "length (article_rows sample_store) = 4"
    by (simp add: sample_store_def)
  have d: "p_title nothing = None" "p_userId nothing = None" "p_publishedAt nothing = None"
    by (simp_all add: nothing_def)
  note plain = createArticle_defaults [OF ok, of sample_env nothing TypeError "[]"]
  note tagged = createArticle_defaults [OF ok, of sample_env "nothing\<lparr>p_tags := Some [ustr ''ai'']\<rparr>" TypeError "[]"]
  have "get_prop (new_record sample_env nothing) ''id''
        = JStr (ustr ''article_'' @ decimal (Date_now sample_env) @ ustr ''_'' @ take 9 (drop 2 (Math_random_36 sample_env)))"
    using plain by blast
  then have f1: "get_prop (new_record sample_env nothing) ''id'' = JStr (ustr ''article_1712345678901_k3j9x2m1q'')"
    by (simp only: i)
  have "get_prop (new_record sample_env nothing) ''publishedAt'' = JStr (date_part (iso_publishedAt sample_env))"
    using plain d by blast
  then have f2: "get_prop (new_record sample_env nothing) ''publishedAt'' = JStr (ustr ''2024-04-05'')"
    by (simp only: p)
  have f2': "get_prop (new_record sample_env nothing) ''title'' = JStr []"
    "get_prop (new_record sample_env nothing) ''userId'' = JStr (ustr ''user'')"
    using plain d by blast+
  have "article_rows (snd (createArticle sample_env nothing sample_store))
        = article_rows sample_store @ [new_record sample_env nothing]"
    using plain by (elim conjE) assumption
  then have f3: "length (article_rows (snd (createArticle sample_env nothing sample_store))) = 5"
    by (simp add: n)
  from tagged have "\<exists>a. fst (createArticle sample_env (nothing\<lparr>p_tags := Some [ustr ''ai'']\<rparr>) sample_store) = Some a
    \<and> tags a = JsonArray (map JsonString (case p_tags (nothing\<lparr>p_tags := Some [ustr ''ai'']\<rparr>) of None \<Rightarrow> [] | Some ts \<Rightarrow> ts))"
    by (elim conjE exE) (rule exI, rule conjI, assumption, assumption)
  then obtain a where
    "fst (createArticle sample_env (nothing\<lparr>p_tags := Some [ustr ''ai'']\<rparr>) sample_store) = Some a"
    "tags a = JsonArray (map JsonString (case p_tags (nothing\<lparr>p_tags := Some [ustr ''ai'']\<rparr>) of None \<Rightarrow> [] | Some ts \<Rightarrow> ts))"
    by (elim exE conjE)
  then have f4: "map_option tags (fst (createArticle sample_env (nothing\<lparr>p_tags := Some [ustr ''ai'']\<rparr>) sample_store))
       = Some (JsonArray [JsonString (ustr ''ai'')])"
    by simp
  show ?thesis
    using ok d f1 f2 f2' f3 f4 by (simp only: simp_thms)
qed

text \<open>
  C7 as stated fails on the fields whose default is not the empty string and that the claim
  does not list: with nothing supplied, \<open>userId\<close> is written as \<open>"user"\<close> and
  \<open>sourceName\<close> and \<open>sourceUrl\<close> as null; the article returned has the user
  \<open>"user"\<close>.
\<close>

theorem createArticle_userId_default:
  "p_userId nothing = None \<and> p_sourceName nothing = None
   \<and> get_prop (new_record sample_env nothing) ''userId'' = JStr (ustr ''user'')
   \<and> get_prop (new_record sample_env nothing) ''userId'' \<noteq> JStr []
   \<and> get_prop (new_record sample_env nothing) ''sourceName'' = JNull
   \<and> map_option userId (fst (createArticle sample_env nothing sample_store)) = Some (JStr (ustr ''user''))"
proof -
  obtain a where a: "transformArticle ThisService (new_record sample_env nothing) = Inr a"
    using transformArticle_bound by blast
  have u: "userId a = JStr (ustr ''user'')"
    using a by (auto simp: transformArticle_def new_record_fields js_or_def nothing_def ustr_def)
  have "fst (createArticle sample_env nothing sample_store) = Some a"
    using createArticle_ok(1) [OF _ a] by (simp add: sample_store_idle)
  then show ?thesis
    using u by (simp add: new_record_fields js_or_def nothing_def ustr_def)
qed

end
